theory Spec2Isabelle
  imports Complex_Main "HOL-Library.Multiset" "HOL-Library.AList"
begin

section \<open>Conventions of the embedding\<close>

text \<open>
  The development embeds the cost-accounting core of the analyzer: the parser
  (\<open>ConversationParser\<close>), the aggregator (\<open>ConversationAnalyzer\<close>), the live monitor
  (\<open>ConversationMonitor\<close>), the alert check of \<open>ConfigManager\<close> and
  \<open>SecurityUtils.safeMerge\<close>.

  \<^item> A JavaScript number that carries money is \<open>NaN\<close> or an exact rational (\<open>jsnum\<close>); a rate
    or a time span is an exact rational, its computation being guarded against \<open>NaN\<close>. Token
    and message counts are natural numbers. Arithmetic is exact, except in the totals over
    tools, models, projects and all conversations, where the order of the additions is in
    question: there a sum is the IEEE 754 sum of two doubles (\<open>fadd\<close>).
  \<^item> A timestamp is the instant it denotes, in milliseconds (\<open>int\<close>); an absent timestamp is
    \<open>None\<close>. Strings that do not denote an instant are outside the model.
  \<^item> An optional field of a log record is an \<open>option\<close>; the JavaScript test \<open>if (s)\<close> on a
    string holds for a present, non-empty string (\<open>truthy\<close>).
  \<^item> A JavaScript object used as a dictionary is an association list in insertion order,
    read with \<open>map_of\<close> and written with \<open>AList.update\<close> (which replaces in place or appends).
    JavaScript lists integer-like keys before the others; no result here depends on the order
    of keys except among entries that tie in a ranking.
  \<^item> A dictionary is created as \<open>{}\<close> and so inherits the members of \<open>Object.prototype\<close>:
    reading it under one of their names (\<open>constructor\<close>, \<open>toString\<close>, ...) finds the inherited
    member unless the dictionary has a property of its own under that name
    (\<open>get_property\<close>). A write through such a read (\<open>acc[k].count++\<close>) changes the inherited
    member, not the dictionary; what it stores there is \<open>NaN\<close>, which every later test
    \<open>if (!acc[k])\<close> reads like an absent property, so the model does not follow these writes.
  \<^item> A string is a list of characters, one for each code unit that \<open>substring\<close> counts.
  \<^item> A reading of the clock (\<open>Date.now()\<close>, \<open>new Date()\<close>) is a parameter.
  \<^item> A thrown exception is the \<open>Inl\<close> branch of a sum.
  \<^item> Record fields carry a short prefix where two records of the source share a field name.
\<close>

datatype js_error = TypeError

definition truthy :: "string option \<Rightarrow> bool" where
  "truthy s = (case s of Some (c # cs) \<Rightarrow> True | _ \<Rightarrow> False)"

definition strval :: "string option \<Rightarrow> string" where
  "strval s = (case s of Some v \<Rightarrow> v | None \<Rightarrow> [])"

text \<open>
  A number that may be \<open>NaN\<close>. A sum with \<open>NaN\<close> is \<open>NaN\<close>, and every comparison with \<open>NaN\<close> is
  false.
\<close>

datatype jsnum = NaN | Num rat

instantiation jsnum :: comm_monoid_add
begin

definition zero_jsnum_def: "0 = Num 0"

definition plus_jsnum_def:
  "a + b = (case a of NaN \<Rightarrow> NaN | Num x \<Rightarrow> (case b of NaN \<Rightarrow> NaN | Num y \<Rightarrow> Num (x + y)))"

instance
  by standard (auto simp: zero_jsnum_def plus_jsnum_def split: jsnum.splits)

end

instantiation jsnum :: ord
begin

definition less_eq_jsnum_def:
  "a \<le> b \<longleftrightarrow> (case a of NaN \<Rightarrow> False | Num x \<Rightarrow> (case b of NaN \<Rightarrow> False | Num y \<Rightarrow> x \<le> y))"

definition less_jsnum_def:
  "a < b \<longleftrightarrow> (case a of NaN \<Rightarrow> False | Num x \<Rightarrow> (case b of NaN \<Rightarrow> False | Num y \<Rightarrow> x < y))"

instance ..

end

text \<open>
  The names of the members of \<open>Object.prototype\<close>, which every object literal inherits. Each
  of them reads as a function, or under \<open>__proto__\<close> as the prototype object: a truthy value
  without any of the properties the code goes on to read.
\<close>

definition object_prototype_names :: "string list" where
  "object_prototype_names =
     [''constructor'', ''__defineGetter__'', ''__defineSetter__'', ''hasOwnProperty'',
      ''__lookupGetter__'', ''__lookupSetter__'', ''isPrototypeOf'', ''propertyIsEnumerable'',
      ''toString'', ''valueOf'', ''__proto__'', ''toLocaleString'']"

text \<open>
  What \<open>obj[k]\<close> finds in a dictionary \<open>obj\<close>: a property of its own, an inherited member, or
  nothing (\<open>undefined\<close>).
\<close>

datatype 'a js_lookup = Own 'a | Inherited | Absent

definition get_property :: "(string \<rightharpoonup> 'a) \<Rightarrow> string \<Rightarrow> 'a js_lookup" where
  "get_property obj k =
     (case obj k of
        Some v \<Rightarrow> Own v
      | None \<Rightarrow> if k \<in> set object_prototype_names then Inherited else Absent)"

text \<open>\<open>x || 0\<close> on an optional counter.\<close>

definition or0 :: "nat option \<Rightarrow> nat" where
  "or0 x = (case x of Some n \<Rightarrow> n | None \<Rightarrow> 0)"

section \<open>Pricing and token accounting (ConversationParser)\<close>

record pricing_rate =
  p_input :: rat
  p_output :: rat
  p_cache_write :: rat
  p_cache_read :: rat

type_synonym pricing_table = "string \<rightharpoonup> pricing_rate"

record usage =
  input_tokens :: "nat option"
  output_tokens :: "nat option"
  cache_creation_input_tokens :: "nat option"
  cache_read_input_tokens :: "nat option"

record usage_tokens =
  ut_total :: nat
  ut_input :: nat
  ut_output :: nat
  ut_cacheWrite :: nat
  ut_cacheRead :: nat

text \<open>
  \<open>this.pricing[model] || this.pricing['default']\<close>: an entry of the table or an inherited
  member is truthy and is taken; otherwise the \<open>default\<close> entry is read.
\<close>

definition lookup_pricing :: "pricing_table \<Rightarrow> string \<Rightarrow> pricing_rate js_lookup" where
  "lookup_pricing pricing model =
     (case get_property pricing model of
        Absent \<Rightarrow> get_property pricing ''default''
      | found \<Rightarrow> found)"

text \<open>
  Reading \<open>.input\<close> of \<open>undefined\<close> throws a TypeError. The four rates of an inherited member
  are \<open>undefined\<close>, and a counter times \<open>undefined\<close> is \<open>NaN\<close>, so that the cost is \<open>NaN\<close>.
\<close>

definition calculateCost :: "pricing_table \<Rightarrow> usage option \<Rightarrow> string \<Rightarrow> js_error + jsnum" where
  "calculateCost pricing usage model =
     (case usage of
        None \<Rightarrow> Inr 0
      | Some u \<Rightarrow>
          (case lookup_pricing pricing model of
             Absent \<Rightarrow> Inl TypeError
           | Inherited \<Rightarrow> Inr NaN
           | Own pr \<Rightarrow>
               (let inputCost = (of_nat (or0 (input_tokens u)) * p_input pr) / 1000000;
                    outputCost = (of_nat (or0 (output_tokens u)) * p_output pr) / 1000000;
                    cacheWriteCost =
                      (of_nat (or0 (cache_creation_input_tokens u)) * p_cache_write pr) / 1000000;
                    cacheReadCost =
                      (of_nat (or0 (cache_read_input_tokens u)) * p_cache_read pr) / 1000000
                in Inr (Num (inputCost + outputCost + cacheWriteCost + cacheReadCost)))))"

definition zero_tokens :: usage_tokens where
  "zero_tokens = \<lparr>ut_total = 0, ut_input = 0, ut_output = 0, ut_cacheWrite = 0, ut_cacheRead = 0\<rparr>"

definition calculateTokens :: "usage option \<Rightarrow> usage_tokens" where
  "calculateTokens usage =
     (case usage of
        None \<Rightarrow> zero_tokens
      | Some u \<Rightarrow>
          \<lparr>ut_total = or0 (input_tokens u) + or0 (output_tokens u)
                        + or0 (cache_creation_input_tokens u) + or0 (cache_read_input_tokens u),
           ut_input = or0 (input_tokens u),
           ut_output = or0 (output_tokens u),
           ut_cacheWrite = or0 (cache_creation_input_tokens u),
           ut_cacheRead = or0 (cache_read_input_tokens u)\<rparr>)"

section \<open>Dictionaries (JavaScript objects keyed by a name)\<close>

text \<open>
  The idiom \<open>if (!acc[k]) { acc[k] = init }; acc[k].f += d.f; ...\<close>: the entry under \<open>k\<close>, or a
  fresh one, is replaced by itself with \<open>d\<close> added. A new key goes to the end of the object.
\<close>

definition upsert ::
  "('k \<Rightarrow> 'v) \<Rightarrow> ('v \<Rightarrow> 'd \<Rightarrow> 'v) \<Rightarrow> ('k \<times> 'v) list \<Rightarrow> 'k \<Rightarrow> 'd \<Rightarrow> ('k \<times> 'v) list" where
  "upsert init add acc k d =
     AList.update k (add (case map_of acc k of Some v \<Rightarrow> v | None \<Rightarrow> init k) d) acc"

text \<open>\<open>Set.prototype.add\<close> on a set kept in insertion order.\<close>

definition set_add :: "'a \<Rightarrow> 'a list \<Rightarrow> 'a list" where
  "set_add x xs = (if x \<in> set xs then xs else xs @ [x])"

section \<open>Log records (one JSON object per line)\<close>

record metadata =
  md_workingDirectory :: "string option"
  md_cwd :: "string option"
  md_thread_summary :: "string option"
  md_summary :: "string option"

record tool_use =
  tl_name :: "string option"
  tl_id :: "string option"
  tl_input :: "string option"

record inner_message =
  im_usage :: "usage option"
  im_model :: "string option"

record message =
  m_type :: "string option"
  m_timestamp :: "int option"
  m_sessionId :: "string option"
  m_cwd :: "string option"
  m_user :: "string option"
  m_service_tier :: "string option"
  m_parentUUID :: "string option"
  m_summary :: "string option"
  m_metadata :: "metadata option"
  m_text :: "string option"
  m_tool_use :: "tool_use option"
  m_tool_use_id :: "string option"
  m_is_error :: "bool option"
  m_content :: "string option"
  m_message :: "inner_message option"
  m_id :: "string option"
  m_UUID :: "string option"
  m_role :: "string option"
  m_requestID :: "string option"

text \<open>
  What \<open>JSON.parse(line)\<close> makes of a line: it throws a SyntaxError (\<open>Malformed\<close>), it returns
  \<open>null\<close>, whose first property read throws a TypeError (\<open>JsonNull\<close>), or it returns a value
  whose properties are read (\<open>JsonObject\<close>).
\<close>

datatype jsonl_line = Malformed | JsonNull | JsonObject message

section \<open>The conversation built from one log file\<close>

record execution =
  ex_timestamp :: "int option"
  ex_id :: "string option"
  ex_parentId :: "string option"
  ex_input :: "string option"

record tool_usage =
  tu_count :: nat
  tu_totalCost :: jsnum
  tu_errors :: nat
  tu_executions :: "execution list"

record model_usage =
  mu_count :: nat
  mu_cost :: jsnum
  mu_tokens :: usage_tokens

record burn_sample =
  bs_timestamp :: int
  bs_rate :: rat
  bs_tokens :: nat
  bs_cost :: jsnum

record command_use =
  cm_command :: string
  cm_timestamp :: "int option"
  cm_fullText :: string

record tool_error =
  te_timestamp :: "int option"
  te_toolUseId :: "string option"
  te_content :: "string option"
  te_parentId :: "string option"

record tool_result =
  tr_toolUseId :: "string option"
  tr_isError :: "bool option"
  tr_content :: "string option"

record stored_message =
  sm_type :: "string option"
  sm_timestamp :: "int option"
  sm_id :: "string option"
  sm_parentId :: "string option"
  sm_role :: "string option"
  sm_model :: "string option"
  sm_usage :: "usage option"
  sm_toolUse :: "tool_use option"
  sm_toolResult :: "tool_result option"
  sm_text :: "string option"
  sm_requestId :: "string option"

record conversation =
  conversationId :: string
  sessionId :: string
  conversationName :: string
  conversationTitle :: string
  totalCost :: jsnum
  totalTokens :: usage_tokens
  messageCount :: nat
  startTime :: "int option"
  endTime :: "int option"
  duration :: rat
  summary :: string
  firstUserMessage :: string
  messages :: "stored_message list"
  toolUsage :: "(string \<times> tool_usage) list"
  commands :: "command_use list"
  errors :: "tool_error list"
  models :: "(string \<times> model_usage) list"
  workingDirectories :: "string list"
  userTypes :: "string list"
  serviceTiers :: "string list"
  tokenBurnRate :: "burn_sample list"
  projectPath :: string
  projectName :: string

text \<open>The loop of \<open>parseJSONLFile\<close> carries the conversation and the local \<open>lastTimestamp\<close>.\<close>

record parser_state =
  ps_conversation :: conversation
  ps_lastTimestamp :: "int option"

definition initial_conversation :: conversation where
  "initial_conversation =
     \<lparr>conversationId = [], sessionId = [], conversationName = [], conversationTitle = [],
      totalCost = 0, totalTokens = zero_tokens, messageCount = 0,
      startTime = None, endTime = None, duration = 0, summary = [], firstUserMessage = [],
      messages = [], toolUsage = [], commands = [], errors = [], models = [],
      workingDirectories = [], userTypes = [], serviceTiers = [], tokenBurnRate = [],
      projectPath = [], projectName = []\<rparr>"

definition initial_state :: parser_state where
  "initial_state = \<lparr>ps_conversation = initial_conversation, ps_lastTimestamp = None\<rparr>"

subsection \<open>The blocks of the loop body, in source order\<close>

definition extract_session_id :: "message \<Rightarrow> conversation \<Rightarrow> conversation" where
  "extract_session_id m c =
     (if truthy (m_sessionId m) \<and> sessionId c = [] then c\<lparr>sessionId := strval (m_sessionId m)\<rparr>
      else c)"

definition extract_metadata :: "message \<Rightarrow> conversation \<Rightarrow> conversation" where
  "extract_metadata m c =
     (if m_type m = Some ''summary'' then
        (let c1 = (if truthy (m_summary m) then c\<lparr>summary := strval (m_summary m)\<rparr> else c)
         in case m_metadata m of
              None \<Rightarrow> c1
            | Some md \<Rightarrow>
                (let c2 = c1\<lparr>conversationName :=
                               (if truthy (md_workingDirectory md) then strval (md_workingDirectory md)
                                else if truthy (md_cwd md) then strval (md_cwd md)
                                else ''Unknown''),
                             projectPath := (if truthy (md_cwd md) then strval (md_cwd md) else [])\<rparr>;
                     c3 = (if truthy (md_thread_summary md)
                           then c2\<lparr>conversationTitle := strval (md_thread_summary md)\<rparr> else c2)
                 in if truthy (md_summary md)
                    then c3\<lparr>conversationTitle := strval (md_summary md)\<rparr> else c3))
      else c)"

definition capture_first_user_message :: "message \<Rightarrow> conversation \<Rightarrow> conversation" where
  "capture_first_user_message m c =
     (if m_type m = Some ''user'' \<and> firstUserMessage c = [] \<and> truthy (m_text m)
      then c\<lparr>firstUserMessage := take 100 (strval (m_text m))\<rparr> else c)"

definition track_sets :: "message \<Rightarrow> conversation \<Rightarrow> conversation" where
  "track_sets m c =
     (let c1 = (if truthy (m_cwd m)
                then c\<lparr>workingDirectories := set_add (strval (m_cwd m)) (workingDirectories c)\<rparr>
                else c);
          c2 = (if truthy (m_user m)
                then c1\<lparr>userTypes := set_add (strval (m_user m)) (userTypes c1)\<rparr> else c1)
      in if truthy (m_service_tier m)
         then c2\<lparr>serviceTiers := set_add (strval (m_service_tier m)) (serviceTiers c2)\<rparr> else c2)"

definition new_tool_usage :: "string \<Rightarrow> tool_usage" where
  "new_tool_usage n = \<lparr>tu_count = 0, tu_totalCost = 0, tu_errors = 0, tu_executions = []\<rparr>"

definition record_execution :: "tool_usage \<Rightarrow> execution \<Rightarrow> tool_usage" where
  "record_execution d e = d\<lparr>tu_count := tu_count d + 1, tu_executions := tu_executions d @ [e]\<rparr>"

text \<open>
  The block "Extract tool usage". Under a tool name that finds an inherited member the entry
  is not created, \<open>count++\<close> goes to the member, and \<open>.executions.push\<close> throws a TypeError
  since the member has no \<open>executions\<close>: the conversation is as it was.
\<close>

definition extract_tool_use :: "message \<Rightarrow> conversation \<Rightarrow> js_error + conversation" where
  "extract_tool_use m c =
     (if m_type m = Some ''tool_use'' then
        (let toolName = (case m_tool_use m of
                           Some t \<Rightarrow> if truthy (tl_name t) then strval (tl_name t) else ''unknown''
                         | None \<Rightarrow> ''unknown'');
             e = \<lparr>ex_timestamp = m_timestamp m,
                  ex_id = (case m_tool_use m of Some t \<Rightarrow> tl_id t | None \<Rightarrow> None),
                  ex_parentId = m_parentUUID m,
                  ex_input = (case m_tool_use m of Some t \<Rightarrow> tl_input t | None \<Rightarrow> None)\<rparr>
         in case get_property (map_of (toolUsage c)) toolName of
              Inherited \<Rightarrow> Inl TypeError
            | _ \<Rightarrow> Inr (c\<lparr>toolUsage := upsert new_tool_usage record_execution (toolUsage c) toolName e\<rparr>))
      else Inr c)"

definition track_tool_result :: "message \<Rightarrow> conversation \<Rightarrow> conversation" where
  "track_tool_result m c =
     (if m_type m = Some ''tool_result'' \<and> m_is_error m = Some True
      then c\<lparr>errors := errors c @
                 [\<lparr>te_timestamp = m_timestamp m, te_toolUseId = m_tool_use_id m,
                   te_content = m_content m, te_parentId = m_parentUUID m\<rparr>]\<rparr>
      else c)"

definition is_word_char :: "char \<Rightarrow> bool" where
  "is_word_char ch \<longleftrightarrow>
     ch \<in> set ''abcdefghijklmnopqrstuvwxyzABCDEFGHIJKLMNOPQRSTUVWXYZ0123456789_''"

text \<open>The match of \<open>/^\/(\w+)/\<close>: a leading slash and the longest run of word characters after it.\<close>

definition command_match :: "string \<Rightarrow> string option" where
  "command_match txt =
     (case txt of
        [] \<Rightarrow> None
      | ch # rest \<Rightarrow>
          if ch = CHR ''/'' \<and> takeWhile is_word_char rest \<noteq> []
          then Some (takeWhile is_word_char rest) else None)"

definition extract_command :: "message \<Rightarrow> conversation \<Rightarrow> conversation" where
  "extract_command m c =
     (if m_type m = Some ''user'' \<and> truthy (m_text m) then
        (case command_match (strval (m_text m)) of
           None \<Rightarrow> c
         | Some cmd \<Rightarrow>
             c\<lparr>commands := commands c @
                  [\<lparr>cm_command = cmd, cm_timestamp = m_timestamp m,
                    cm_fullText = strval (m_text m)\<rparr>]\<rparr>)
      else c)"

definition add_tokens :: "usage_tokens \<Rightarrow> usage_tokens \<Rightarrow> usage_tokens" where
  "add_tokens a b =
     \<lparr>ut_total = ut_total a + ut_total b, ut_input = ut_input a + ut_input b,
      ut_output = ut_output a + ut_output b, ut_cacheWrite = ut_cacheWrite a + ut_cacheWrite b,
      ut_cacheRead = ut_cacheRead a + ut_cacheRead b\<rparr>"

definition new_model_usage :: "string \<Rightarrow> model_usage" where
  "new_model_usage n = \<lparr>mu_count = 0, mu_cost = 0, mu_tokens = zero_tokens\<rparr>"

definition record_model_use :: "model_usage \<Rightarrow> jsnum \<times> usage_tokens \<Rightarrow> model_usage" where
  "record_model_use d ct =
     d\<lparr>mu_count := mu_count d + 1, mu_cost := mu_cost d + fst ct,
       mu_tokens := add_tokens (mu_tokens d) (snd ct)\<rparr>"

text \<open>\<open>exec.id === message.parentUUID || exec.parentId === message.parentUUID\<close>.\<close>

definition related_execution :: "string \<Rightarrow> execution \<Rightarrow> bool" where
  "related_execution parent e \<longleftrightarrow> ex_id e = Some parent \<or> ex_parentId e = Some parent"

text \<open>
  The scan over \<open>Object.entries(conversation.toolUsage)\<close>: the first tool with a related
  execution gets the cost, and the scan stops.
\<close>

fun attribute_tool_cost ::
  "string \<Rightarrow> jsnum \<Rightarrow> (string \<times> tool_usage) list \<Rightarrow> (string \<times> tool_usage) list" where
  "attribute_tool_cost parent cost [] = []"
| "attribute_tool_cost parent cost ((toolName, toolData) # rest) =
     (if list_ex (related_execution parent) (tu_executions toolData)
      then (toolName, toolData\<lparr>tu_totalCost := tu_totalCost toolData + cost\<rparr>) # rest
      else (toolName, toolData) # attribute_tool_cost parent cost rest)"

text \<open>The time between two instants in minutes: \<open>(new Date(a) - new Date(b)) / 1000 / 60\<close>.\<close>

definition minutes_between :: "int \<Rightarrow> int \<Rightarrow> rat" where
  "minutes_between a b = of_int (a - b) / 1000 / 60"

definition burn_rate_step ::
  "message \<Rightarrow> int option \<Rightarrow> usage_tokens \<Rightarrow> jsnum \<Rightarrow> burn_sample list \<Rightarrow> burn_sample list" where
  "burn_rate_step m lastTimestamp tokens cost samples =
     (case m_timestamp m of
        None \<Rightarrow> samples
      | Some t \<Rightarrow>
          (case lastTimestamp of
             None \<Rightarrow> samples
           | Some t0 \<Rightarrow>
               (let timeDiff = minutes_between t t0
                in if timeDiff > 0
                   then samples @
                          [\<lparr>bs_timestamp = t, bs_rate = of_nat (ut_total tokens) / timeDiff,
                            bs_tokens = ut_total tokens, bs_cost = cost\<rparr>]
                   else samples)))"

text \<open>
  The body of \<open>if (usage && model)\<close>, once the cost is computed. The totals and the message
  count are written first. Under a model name that finds an inherited member the entry of
  \<open>models\<close> is not created, \<open>count++\<close> and \<open>cost +=\<close> go to the member, and \<open>.tokens.total\<close>
  throws a TypeError since the member has no \<open>tokens\<close>: the exception leaves the totals
  written and skips the rest. \<open>Inl\<close> carries the state the exception leaves.
\<close>

definition account_cost ::
  "message \<Rightarrow> string \<Rightarrow> jsnum \<Rightarrow> usage_tokens \<Rightarrow> parser_state
     \<Rightarrow> (js_error \<times> parser_state) + parser_state" where
  "account_cost m model cost tokens st =
     (let c = ps_conversation st;
          c1 = c\<lparr>totalCost := totalCost c + cost,
                 totalTokens := add_tokens (totalTokens c) tokens,
                 messageCount := messageCount c + 1\<rparr>
      in case get_property (map_of (models c1)) model of
           Inherited \<Rightarrow> Inl (TypeError, st\<lparr>ps_conversation := c1\<rparr>)
         | _ \<Rightarrow>
             (let c2 = c1\<lparr>models :=
                           upsert new_model_usage record_model_use (models c1) model (cost, tokens)\<rparr>;
                  c3 = (if truthy (m_parentUUID m)
                        then c2\<lparr>toolUsage :=
                                  attribute_tool_cost (strval (m_parentUUID m)) cost (toolUsage c2)\<rparr>
                        else c2);
                  c4 = c3\<lparr>tokenBurnRate :=
                            burn_rate_step m (ps_lastTimestamp st) tokens cost (tokenBurnRate c3)\<rparr>
              in Inr \<lparr>ps_conversation = c4, ps_lastTimestamp = m_timestamp m\<rparr>))"

text \<open>
  The block "Extract cost data from assistant messages". \<open>calculateCost\<close> is its first
  statement, so an exception of it leaves the state as the earlier blocks made it.
\<close>

definition extract_cost ::
  "pricing_table \<Rightarrow> message \<Rightarrow> parser_state \<Rightarrow> (js_error \<times> parser_state) + parser_state" where
  "extract_cost pricing m st =
     (if m_type m = Some ''assistant'' then
        (case m_message m of
           None \<Rightarrow> Inr st
         | Some im \<Rightarrow>
             (case im_usage im of
                None \<Rightarrow> Inr st
              | Some u \<Rightarrow>
                  if truthy (im_model im) then
                    (case calculateCost pricing (Some u) (strval (im_model im)) of
                       Inl e \<Rightarrow> Inl (e, st)
                     | Inr cost \<Rightarrow>
                         account_cost m (strval (im_model im)) cost (calculateTokens (Some u)) st)
                  else Inr st))
      else Inr st)"

definition store_message :: "message \<Rightarrow> conversation \<Rightarrow> conversation" where
  "store_message m c =
     c\<lparr>messages := messages c @
          [\<lparr>sm_type = m_type m, sm_timestamp = m_timestamp m,
            sm_id = (if truthy (m_id m) then m_id m else m_UUID m),
            sm_parentId = m_parentUUID m, sm_role = m_role m,
            sm_model = (case m_message m of Some im \<Rightarrow> im_model im | None \<Rightarrow> None),
            sm_usage = (case m_message m of Some im \<Rightarrow> im_usage im | None \<Rightarrow> None),
            sm_toolUse = m_tool_use m,
            sm_toolResult =
              (if m_type m = Some ''tool_result''
               then Some \<lparr>tr_toolUseId = m_tool_use_id m, tr_isError = m_is_error m,
                          tr_content = m_content m\<rparr>
               else None),
            sm_text = m_text m, sm_requestId = m_requestID m\<rparr>]\<rparr>"

definition track_time_range :: "message \<Rightarrow> conversation \<Rightarrow> conversation" where
  "track_time_range m c =
     (case m_timestamp m of
        None \<Rightarrow> c
      | Some t \<Rightarrow>
          (let c1 = (case startTime c of
                       None \<Rightarrow> c\<lparr>startTime := Some t\<rparr>
                     | Some s \<Rightarrow> if t < s then c\<lparr>startTime := Some t\<rparr> else c)
           in case endTime c1 of
                None \<Rightarrow> c1\<lparr>endTime := Some t\<rparr>
              | Some e \<Rightarrow> if t > e then c1\<lparr>endTime := Some t\<rparr> else c1))"

text \<open>The blocks before and after "Extract tool usage", up to the cost block.\<close>

definition before_tools :: "message \<Rightarrow> conversation \<Rightarrow> conversation" where
  "before_tools m c =
     track_sets m (capture_first_user_message m (extract_metadata m (extract_session_id m c)))"

definition after_tools :: "message \<Rightarrow> conversation \<Rightarrow> conversation" where
  "after_tools m c = extract_command m (track_tool_result m c)"

text \<open>
  One iteration of \<open>for await (const line of rl) { try { ... } catch (e) { } }\<close>: a line that
  throws keeps what was written before the exception and skips the rest of the body.
\<close>

fun process_line :: "pricing_table \<Rightarrow> parser_state \<Rightarrow> jsonl_line \<Rightarrow> parser_state" where
  "process_line pricing st Malformed = st"
| "process_line pricing st JsonNull = st"
| "process_line pricing st (JsonObject m) =
     (let c1 = before_tools m (ps_conversation st)
      in case extract_tool_use m c1 of
           Inl e \<Rightarrow> st\<lparr>ps_conversation := c1\<rparr>
         | Inr c2 \<Rightarrow>
             (case extract_cost pricing m (st\<lparr>ps_conversation := after_tools m c2\<rparr>) of
                Inl (e, st1) \<Rightarrow> st1
              | Inr st2 \<Rightarrow>
                  st2\<lparr>ps_conversation :=
                        track_time_range m (store_message m (ps_conversation st2))\<rparr>))"

definition flatten_newlines :: "string \<Rightarrow> string" where
  "flatten_newlines s = map (\<lambda>ch. if ch = CHR 0x0A then CHR '' '' else ch) s"

text \<open>The statements after the loop. \<open>baseName\<close> is \<open>path.basename(filePath, '.jsonl')\<close>.\<close>

definition finalize :: "string \<Rightarrow> conversation \<Rightarrow> conversation" where
  "finalize baseName c =
     (let c1 = (case endTime c of
                  None \<Rightarrow> c
                | Some e \<Rightarrow>
                    (case startTime c of
                       None \<Rightarrow> c
                     | Some s \<Rightarrow> c\<lparr>duration := minutes_between e s\<rparr>));
          c2 = c1\<lparr>conversationId := baseName\<rparr>;
          c3 = (if conversationTitle c2 = []
                then c2\<lparr>conversationTitle :=
                          (if summary c2 \<noteq> [] then summary c2
                           else if firstUserMessage c2 \<noteq> [] then firstUserMessage c2
                           else ''Untitled conversation'')\<rparr>
                else c2)
      in c3\<lparr>conversationTitle := take 100 (flatten_newlines (conversationTitle c3))\<rparr>)"

text \<open>
  \<open>parseJSONLFile\<close> on the lines of a file that passed the path and size checks (a file that
  fails them is skipped by the caller and gives no conversation).
\<close>

definition parseJSONLFile :: "pricing_table \<Rightarrow> string \<Rightarrow> jsonl_line list \<Rightarrow> conversation" where
  "parseJSONLFile pricing baseName lines =
     finalize baseName (ps_conversation (foldl (process_line pricing) initial_state lines))"

section \<open>The live monitor (ConversationMonitor)\<close>

text \<open>\<open>xs.slice(-n)\<close> for a positive \<open>n\<close>: the last \<open>n\<close> elements, or all of them.\<close>

definition slice_last :: "nat \<Rightarrow> 'a list \<Rightarrow> 'a list" where
  "slice_last n xs = drop (length xs - n) xs"

record update =
  up_sessionId :: string
  up_timestamp :: int
  up_type :: "string option"
  up_cost :: "jsnum option"
  up_tokens :: "nat option"
  up_model :: "string option"
  up_usage :: "usage option"
  up_tool :: "string option"
  up_text :: "string option"

record live_sample =
  ls_timestamp :: int
  ls_rate :: rat
  ls_tokens :: nat

record session =
  s_sessionId :: string
  s_startTime :: int
  s_lastUpdate :: int
  s_totalCost :: rat
  s_totalTokens :: nat
  s_messages :: nat
  s_tokenBurnRate :: "live_sample list"
  s_recentActivity :: "update list"

text \<open>
  \<open>pricing[model] || pricing.default || { input: 3.0, output: 15.0, ... }\<close>, where \<open>pricing\<close> is
  the custom pricing of the configuration or \<open>{}\<close>.
\<close>

definition fallback_pricing :: pricing_rate where
  "fallback_pricing = \<lparr>p_input = 3, p_output = 15, p_cache_write = 15 / 4, p_cache_read = 3 / 10\<rparr>"

definition monitor_pricing :: "pricing_table \<Rightarrow> string \<Rightarrow> pricing_rate js_lookup" where
  "monitor_pricing pricing model =
     (case get_property pricing model of
        Absent \<Rightarrow>
          (case get_property pricing ''default'' of
             Absent \<Rightarrow> Own fallback_pricing
           | found \<Rightarrow> found)
      | found \<Rightarrow> found)"

text \<open>
  The body of the \<open>forEach\<close> of \<open>parseRecentUpdates\<close>: \<open>None\<close> when the line throws, so that
  no update is pushed. \<open>now\<close> is what \<open>Date.now()\<close> returns at this line. With an inherited
  member for its pricing the cost of an update is \<open>NaN\<close>.
\<close>

fun parse_update :: "pricing_table \<Rightarrow> string \<Rightarrow> int \<Rightarrow> jsonl_line \<Rightarrow> update option" where
  "parse_update pricing sid now Malformed = None"
| "parse_update pricing sid now JsonNull = None"
| "parse_update pricing sid now (JsonObject m) =
     (let u0 = \<lparr>up_sessionId = sid,
                up_timestamp = (case m_timestamp m of Some t \<Rightarrow> t | None \<Rightarrow> now),
                up_type = m_type m, up_cost = None, up_tokens = None, up_model = None,
                up_usage = None, up_tool = None, up_text = None\<rparr>;
          u1 = (if m_type m = Some ''assistant'' then
                  (case m_message m of
                     None \<Rightarrow> u0
                   | Some im \<Rightarrow>
                       (case im_usage im of
                          None \<Rightarrow> u0
                        | Some us \<Rightarrow>
                            if truthy (im_model im) then
                              (let cost =
                                     (case monitor_pricing pricing (strval (im_model im)) of
                                        Own modelPricing \<Rightarrow>
                                          (let inputCost = (of_nat (or0 (input_tokens us))
                                                              * p_input modelPricing) / 1000000;
                                               outputCost = (of_nat (or0 (output_tokens us))
                                                               * p_output modelPricing) / 1000000;
                                               cacheWriteCost = (of_nat (or0 (cache_creation_input_tokens us))
                                                                   * p_cache_write modelPricing) / 1000000;
                                               cacheReadCost = (of_nat (or0 (cache_read_input_tokens us))
                                                                  * p_cache_read modelPricing) / 1000000
                                           in Num (inputCost + outputCost + cacheWriteCost + cacheReadCost))
                                      | _ \<Rightarrow> NaN)
                               in u0\<lparr>up_cost := Some cost,
                                     up_tokens := Some (or0 (input_tokens us) + or0 (output_tokens us)
                                                 + or0 (cache_creation_input_tokens us)
                                                 + or0 (cache_read_input_tokens us)),
                                     up_model := im_model im, up_usage := Some us\<rparr>)
                            else u0))
                else u0);
          u2 = (if m_type m = Some ''tool_use''
                then u1\<lparr>up_tool := (case m_tool_use m of Some t \<Rightarrow> tl_name t | None \<Rightarrow> None)\<rparr>
                else u1);
          u3 = (if m_type m = Some ''user'' \<and> truthy (m_text m)
                then u2\<lparr>up_text := Some (take 100 (strval (m_text m)))\<rparr> else u2)
      in Some u3)"

text \<open>\<open>clock i\<close> is the reading of \<open>Date.now()\<close> while line \<open>i\<close> is handled.\<close>

fun parse_updates_from ::
  "pricing_table \<Rightarrow> string \<Rightarrow> (nat \<Rightarrow> int) \<Rightarrow> nat \<Rightarrow> jsonl_line list \<Rightarrow> update list" where
  "parse_updates_from pricing sid clock i [] = []"
| "parse_updates_from pricing sid clock i (l # ls) =
     (case parse_update pricing sid (clock i) l of
        None \<Rightarrow> parse_updates_from pricing sid clock (Suc i) ls
      | Some u \<Rightarrow> u # parse_updates_from pricing sid clock (Suc i) ls)"

definition parseRecentUpdates ::
  "pricing_table \<Rightarrow> (nat \<Rightarrow> int) \<Rightarrow> jsonl_line list \<Rightarrow> string \<Rightarrow> update list" where
  "parseRecentUpdates pricing clock lines sid = parse_updates_from pricing sid clock 0 lines"

text \<open>
  The body of \<open>updates.forEach\<close> in \<open>processFileUpdate\<close>. The test \<open>if (update.cost)\<close> fails
  for an absent cost, for zero and for \<open>NaN\<close>, so the cost of the session stays a rational.
\<close>

definition apply_update :: "session \<Rightarrow> update \<Rightarrow> session" where
  "apply_update s u =
     (let s1 = (case up_cost u of
                  Some (Num c) \<Rightarrow> if c \<noteq> 0 then s\<lparr>s_totalCost := s_totalCost s + c\<rparr> else s
                | _ \<Rightarrow> s);
          s2 = (case up_tokens u of
                  Some n \<Rightarrow> if n \<noteq> 0 then s1\<lparr>s_totalTokens := s_totalTokens s1 + n\<rparr> else s1
                | None \<Rightarrow> s1);
          s3 = (if up_type u = Some ''assistant'' then s2\<lparr>s_messages := s_messages s2 + 1\<rparr> else s2);
          s4 = (if s_recentActivity s3 \<noteq> [] then
                  (let lastActivity = last (s_recentActivity s3);
                       timeDiff = minutes_between (up_timestamp u) (up_timestamp lastActivity)
                   in case up_tokens u of
                        Some n \<Rightarrow>
                          if timeDiff > 0 \<and> n \<noteq> 0
                          then s3\<lparr>s_tokenBurnRate := s_tokenBurnRate s3 @
                                    [\<lparr>ls_timestamp = up_timestamp u, ls_rate = of_nat n / timeDiff,
                                      ls_tokens = n\<rparr>]\<rparr>
                          else s3
                      | None \<Rightarrow> s3)
                else s3)
      in s4\<lparr>s_recentActivity := s_recentActivity s4 @ [u], s_lastUpdate := up_timestamp u\<rparr>)"

definition new_session :: "string \<Rightarrow> int \<Rightarrow> session" where
  "new_session sid now =
     \<lparr>s_sessionId = sid, s_startTime = now, s_lastUpdate = now, s_totalCost = 0,
      s_totalTokens = 0, s_messages = 0, s_tokenBurnRate = [], s_recentActivity = []\<rparr>"

text \<open>"Keep only recent activity (last 100 items)".\<close>

definition keep_recent :: "session \<Rightarrow> session" where
  "keep_recent s =
     (if length (s_recentActivity s) > 100
      then s\<lparr>s_recentActivity := slice_last 100 (s_recentActivity s)\<rparr> else s)"

record session_stats =
  ss_sessionId :: string
  ss_startTime :: int
  ss_lastUpdate :: int
  ss_duration :: rat
  ss_totalCost :: rat
  ss_totalTokens :: nat
  ss_messages :: nat
  ss_avgBurnRate :: rat
  ss_costPerMinute :: rat
  ss_tokensPerMinute :: rat
  ss_recentActivity :: "update list"
  ss_burnRateHistory :: "live_sample list"

definition session_snapshot :: "session \<Rightarrow> session_stats" where
  "session_snapshot s =
     (let dur = minutes_between (s_lastUpdate s) (s_startTime s);
          avgBurnRate = (if length (s_tokenBurnRate s) > 0
                         then sum_list (map ls_rate (s_tokenBurnRate s))
                                / of_nat (length (s_tokenBurnRate s))
                         else 0)
      in \<lparr>ss_sessionId = s_sessionId s, ss_startTime = s_startTime s,
          ss_lastUpdate = s_lastUpdate s, ss_duration = dur, ss_totalCost = s_totalCost s,
          ss_totalTokens = s_totalTokens s, ss_messages = s_messages s,
          ss_avgBurnRate = avgBurnRate,
          ss_costPerMinute = (if dur > 0 then s_totalCost s / dur else 0),
          ss_tokensPerMinute = (if dur > 0 then of_nat (s_totalTokens s) / dur else 0),
          ss_recentActivity = slice_last 10 (s_recentActivity s),
          ss_burnRateHistory = slice_last 20 (s_tokenBurnRate s)\<rparr>)"

definition getSessionStats :: "(string \<rightharpoonup> session) \<Rightarrow> string \<Rightarrow> session_stats option" where
  "getSessionStats sessionData sid =
     (case sessionData sid of None \<Rightarrow> None | Some s \<Rightarrow> Some (session_snapshot s))"

subsection \<open>Alerts\<close>

record alert_thresholds =
  al_enabled :: bool
  al_dailyCostThreshold :: rat
  al_sessionCostThreshold :: rat
  al_tokenBurnRateThreshold :: rat
  al_soundEnabled :: bool

text \<open>
  An alert of the monitor. Its message is a fixed text around one number printed with
  \<open>toFixed\<close>; the record keeps that number (\<open>sa_amount\<close>) in place of the text.
\<close>

record session_alert =
  sa_type :: string
  sa_severity :: string
  sa_amount :: rat
  sa_sessionId :: string

text \<open>
  \<open>checkSessionAlerts\<close> returns nothing and emits the list of alerts when it is not empty:
  the model returns the list, and the empty list stands for no emission.
\<close>

definition checkSessionAlerts :: "alert_thresholds \<Rightarrow> session \<Rightarrow> session_alert list" where
  "checkSessionAlerts thresholds s =
     (if \<not> al_enabled thresholds then []
      else
        (let alerts1 = (if s_totalCost s > al_sessionCostThreshold thresholds
                        then [\<lparr>sa_type = ''session_cost'', sa_severity = ''warning'',
                               sa_amount = s_totalCost s, sa_sessionId = s_sessionId s\<rparr>]
                        else [])
         in if length (s_tokenBurnRate s) > 0 then
              (let recentBurnRates = slice_last 5 (s_tokenBurnRate s);
                   avgBurnRate = foldl (\<lambda>acc r. acc + ls_rate r) 0 recentBurnRates
                                   / of_nat (length recentBurnRates)
               in if avgBurnRate > al_tokenBurnRateThreshold thresholds
                  then alerts1 @ [\<lparr>sa_type = ''token_burn_rate'', sa_severity = ''critical'',
                                    sa_amount = avgBurnRate, sa_sessionId = s_sessionId s\<rparr>]
                  else alerts1)
            else alerts1))"

text \<open>
  \<open>processFileUpdate\<close> on the lines \<open>readLastLines(filePath, 50)\<close> returned: the new session
  table, the snapshot sent with \<open>session-updated\<close> and the alerts emitted. \<open>now\<close> is the
  reading of \<open>new Date()\<close> for a session that is created.
\<close>

definition readLastLines :: "jsonl_line list \<Rightarrow> nat \<Rightarrow> jsonl_line list" where
  "readLastLines fileLines numLines = slice_last numLines fileLines"

definition processFileUpdate ::
  "alert_thresholds \<Rightarrow> pricing_table \<Rightarrow> (nat \<Rightarrow> int) \<Rightarrow> int \<Rightarrow> (string \<rightharpoonup> session)
     \<Rightarrow> jsonl_line list \<Rightarrow> string
     \<Rightarrow> (string \<rightharpoonup> session) \<times> session_stats option \<times> session_alert list" where
  "processFileUpdate thresholds pricing clock now sessionData fileLines sid =
     (let updates = parseRecentUpdates pricing clock (readLastLines fileLines 50) sid
      in if length updates > 0 then
           (let s0 = (case sessionData sid of None \<Rightarrow> new_session sid now | Some s \<Rightarrow> s);
                s1 = keep_recent (foldl apply_update s0 updates);
                sessionData' = sessionData(sid \<mapsto> s1)
            in (sessionData', getSessionStats sessionData' sid, checkSessionAlerts thresholds s1))
         else (sessionData, None, []))"

subsection \<open>The alert check of ConfigManager\<close>

record alert_stats =
  st_dailyCost :: rat
  st_sessionCost :: rat
  st_tokenBurnRate :: rat

text \<open>
  An alert of \<open>ConfigManager.checkAlerts\<close>: \<open>ca_amount\<close> is its field \<open>value\<close>; the message, a
  fixed text around the two numbers, is left out.
\<close>

record config_alert =
  ca_type :: string
  ca_severity :: string
  ca_amount :: rat
  ca_threshold :: rat

definition checkAlerts :: "alert_thresholds \<Rightarrow> alert_stats \<Rightarrow> config_alert list" where
  "checkAlerts thresholds stats =
     (if \<not> al_enabled thresholds then []
      else
        (if st_dailyCost stats > al_dailyCostThreshold thresholds
         then [\<lparr>ca_type = ''daily_cost'', ca_severity = ''warning'',
                ca_amount = st_dailyCost stats, ca_threshold = al_dailyCostThreshold thresholds\<rparr>]
         else [])
        @ (if st_sessionCost stats > al_sessionCostThreshold thresholds
           then [\<lparr>ca_type = ''session_cost'', ca_severity = ''warning'',
                  ca_amount = st_sessionCost stats,
                  ca_threshold = al_sessionCostThreshold thresholds\<rparr>]
           else [])
        @ (if st_tokenBurnRate stats > al_tokenBurnRateThreshold thresholds
           then [\<lparr>ca_type = ''token_burn_rate'', ca_severity = ''critical'',
                  ca_amount = st_tokenBurnRate stats,
                  ca_threshold = al_tokenBurnRateThreshold thresholds\<rparr>]
           else []))"

section \<open>Aggregation over conversations (ConversationAnalyzer)\<close>

subsection \<open>Sums of doubles\<close>











subsection \<open>Sorting by a descending number\<close>



subsection \<open>Overall totals\<close>




subsection \<open>Hourly buckets\<close>

record hourly_bucket =
  hb_hour :: nat
  hb_totalCost :: jsnum
  hb_totalTokens :: nat
  hb_conversationCount :: nat

text \<open>
  \<open>Date.prototype.getHours\<close>: the hour of the day in local time. \<open>tz t\<close> is the offset of
  local time from UTC at the instant \<open>t\<close>, in milliseconds.
\<close>

definition getHours :: "(int \<Rightarrow> int) \<Rightarrow> int \<Rightarrow> nat" where
  "getHours tz t = nat (((t + tz t) div 3600000) mod 24)"

definition new_hourly_bucket :: "nat \<Rightarrow> hourly_bucket" where
  "new_hourly_bucket h = \<lparr>hb_hour = h, hb_totalCost = 0, hb_totalTokens = 0, hb_conversationCount = 0\<rparr>"

definition add_to_bucket :: "hourly_bucket \<Rightarrow> conversation \<Rightarrow> hourly_bucket" where
  "add_to_bucket b conv =
     b\<lparr>hb_totalCost := hb_totalCost b + totalCost conv,
       hb_totalTokens := hb_totalTokens b + ut_total (totalTokens conv),
       hb_conversationCount := hb_conversationCount b + 1\<rparr>"

definition add_hourly ::
  "(int \<Rightarrow> int) \<Rightarrow> (nat \<times> hourly_bucket) list \<Rightarrow> conversation \<Rightarrow> (nat \<times> hourly_bucket) list" where
  "add_hourly tz hourlyCosts conv =
     (case startTime conv of
        None \<Rightarrow> hourlyCosts
      | Some t \<Rightarrow>
          if totalCost conv > 0
          then upsert new_hourly_bucket add_to_bucket hourlyCosts (getHours tz t) conv
          else hourlyCosts)"

text \<open>"Fill in missing hours": one step of \<open>for (let i = 0; i < 24; i++)\<close>.\<close>

definition fill_hour :: "(nat \<times> hourly_bucket) list \<Rightarrow> nat \<Rightarrow> (nat \<times> hourly_bucket) list" where
  "fill_hour hourlyCosts i =
     (case map_of hourlyCosts i of
        Some b \<Rightarrow> hourlyCosts
      | None \<Rightarrow> AList.update i (new_hourly_bucket i) hourlyCosts)"

definition aggregateHourlyCosts :: "(int \<Rightarrow> int) \<Rightarrow> conversation list \<Rightarrow> hourly_bucket list" where
  "aggregateHourlyCosts tz conversations =
     sort_key hb_hour
       (map snd (foldl fill_hour (foldl (add_hourly tz) [] conversations) [0..<24]))"

subsection \<open>Tools, models and projects\<close>
























section \<open>The configuration merge (SecurityUtils.safeMerge)\<close>

datatype json =
  JNull | JBool bool | JNum rat | JStr string | JArr "json list" | JObj "(string \<times> json) list"

text \<open>The decimal numeral of an array index, as a property name.\<close>

fun digit_char :: "nat \<Rightarrow> char" where
  "digit_char n = (''0123456789'' ! (n mod 10))"

fun index_name :: "nat \<Rightarrow> string" where
  "index_name n = (if n < 10 then [digit_char n] else index_name (n div 10) @ [digit_char n])"

declare index_name.simps [simp del]

text \<open>
  The own enumerable properties that \<open>{ ...target }\<close> copies: those of an object, the
  elements of an array under their indices, the characters of a string under theirs, and
  none of any other value.
\<close>

definition spread :: "json \<Rightarrow> (string \<times> json) list" where
  "spread v =
     (case v of
        JObj ps \<Rightarrow> ps
      | JArr xs \<Rightarrow> map (\<lambda>i. (index_name i, xs ! i)) [0..<length xs]
      | JStr s \<Rightarrow> map (\<lambda>i. (index_name i, JStr [s ! i])) [0..<length s]
      | _ \<Rightarrow> [])"

definition forbidden :: "string list" where
  "forbidden = [''__proto__'', ''constructor'', ''prototype'']"

text \<open>\<open>x && typeof x === 'object'\<close>: an object or an array.\<close>

definition is_object_like :: "json \<Rightarrow> bool" where
  "is_object_like v = (case v of JObj ps \<Rightarrow> True | JArr xs \<Rightarrow> True | _ \<Rightarrow> False)"

text \<open>
  \<open>safeMerge\<close> and its loop over the keys of \<open>source\<close>. The test
  \<open>!(key in target) || !target[key] || typeof target[key] !== 'object'\<close> reads the target, not
  the output; a property the target only inherits is a function or, under a forbidden key,
  never reached, so the own properties decide it. On a target that is no object the \<open>in\<close>
  operator throws a TypeError.
\<close>

fun safeMerge :: "json \<Rightarrow> json \<Rightarrow> js_error + json"
  and merge_keys ::
    "json \<Rightarrow> (string \<times> json) list \<Rightarrow> (string \<times> json) list \<Rightarrow> js_error + (string \<times> json) list" where
  "safeMerge target (JObj ps) =
     (case merge_keys target (spread target) ps of
        Inl e \<Rightarrow> Inl e
      | Inr out \<Rightarrow> Inr (JObj out))"
| "safeMerge target JNull = Inr (JObj (spread target))"
| "safeMerge target (JBool b) = Inr (JObj (spread target))"
| "safeMerge target (JNum n) = Inr (JObj (spread target))"
| "safeMerge target (JStr s) = Inr (JObj (spread target))"
| "safeMerge target (JArr xs) = Inr (JObj (spread target))"
| "merge_keys target output [] = Inr output"
| "merge_keys target output ((key, sv) # rest) =
     (if key \<in> set forbidden then merge_keys target output rest
      else
        (case sv of
           JObj sps \<Rightarrow>
             if \<not> is_object_like target then Inl TypeError
             else
               (case map_of (spread target) key of
                  None \<Rightarrow> merge_keys target (AList.update key sv output) rest
                | Some tv \<Rightarrow>
                    if is_object_like tv then
                      (case safeMerge tv sv of
                         Inl e \<Rightarrow> Inl e
                       | Inr merged \<Rightarrow> merge_keys target (AList.update key merged output) rest)
                    else merge_keys target (AList.update key sv output) rest)
         | _ \<Rightarrow> merge_keys target (AList.update key sv output) rest))"

text \<open>\<open>ConfigManager.deepMerge\<close> hands both arguments to \<open>safeMerge\<close>.\<close>

definition deepMerge :: "json \<Rightarrow> json \<Rightarrow> js_error + json" where
  "deepMerge target source = safeMerge target source"

text \<open>The value found by following a path of property names through own properties.\<close>

fun json_at :: "json \<Rightarrow> string list \<Rightarrow> json option" where
  "json_at v [] = Some v"
| "json_at v (k # ks) = (case map_of (spread v) k of None \<Rightarrow> None | Some c \<Rightarrow> json_at c ks)"

text \<open>A token record is consistent when its total is the sum of its four components.\<close>

definition consistent_tokens :: "usage_tokens \<Rightarrow> bool" where
  "consistent_tokens t \<longleftrightarrow>
     ut_total t = ut_input t + ut_output t + ut_cacheWrite t + ut_cacheRead t"

section \<open>The cost formula, as stated\<close>

text \<open>The four counters of a usage object, absent ones read as zero, weighted by a rate.\<close>

definition priced_at :: "pricing_rate \<Rightarrow> usage \<Rightarrow> rat" where
  "priced_at rate u =
     (of_nat (or0 (input_tokens u)) * p_input rate
      + of_nat (or0 (output_tokens u)) * p_output rate
      + of_nat (or0 (cache_creation_input_tokens u)) * p_cache_write rate
      + of_nat (or0 (cache_read_input_tokens u)) * p_cache_read rate) / 1000000"

section \<open>Title resolution, stated over the lines of a file\<close>

text \<open>
  What one line contributes to each source of the title: the explicit title it assigns (the
  summary field of its metadata, else the thread summary), its summary text, and its user
  text. Each is present only when it is a non-empty string.
\<close>

definition explicit_title_of :: "jsonl_line \<Rightarrow> string option" where
  "explicit_title_of l =
     (case l of
        JsonObject m \<Rightarrow>
          (if m_type m = Some ''summary'' then
             (case m_metadata m of
                None \<Rightarrow> None
              | Some md \<Rightarrow>
                  if truthy (md_summary md) then md_summary md
                  else if truthy (md_thread_summary md) then md_thread_summary md
                  else None)
           else None)
      | _ \<Rightarrow> None)"

definition running_summary_of :: "jsonl_line \<Rightarrow> string option" where
  "running_summary_of l =
     (case l of
        JsonObject m \<Rightarrow>
          (if m_type m = Some ''summary'' \<and> truthy (m_summary m) then m_summary m else None)
      | _ \<Rightarrow> None)"

definition user_text_of :: "jsonl_line \<Rightarrow> string option" where
  "user_text_of l =
     (case l of
        JsonObject m \<Rightarrow>
          (if m_type m = Some ''user'' \<and> truthy (m_text m) then m_text m else None)
      | _ \<Rightarrow> None)"

fun last_some :: "'a option list \<Rightarrow> 'a option" where
  "last_some [] = None"
| "last_some (x # xs) = (case last_some xs of Some v \<Rightarrow> Some v | None \<Rightarrow> x)"

fun first_some :: "'a option list \<Rightarrow> 'a option" where
  "first_some [] = None"
| "first_some (x # xs) = (case x of Some v \<Rightarrow> Some v | None \<Rightarrow> first_some xs)"

definition resolve_title :: "jsonl_line list \<Rightarrow> string" where
  "resolve_title lines =
     (case last_some (map explicit_title_of lines) of
        Some t \<Rightarrow> t
      | None \<Rightarrow>
          (case last_some (map running_summary_of lines) of
             Some s \<Rightarrow> s
           | None \<Rightarrow>
               (case first_some (map user_text_of lines) of
                  Some u \<Rightarrow> take 100 u
                | None \<Rightarrow> ''Untitled conversation'')))"

text \<open>The three fields the title is resolved from.\<close>

definition title_fields :: "conversation \<Rightarrow> string \<times> string \<times> string" where
  "title_fields c = (conversationTitle c, summary c, firstUserMessage c)"

section \<open>Burn-rate samples, stated over the lines of a file\<close>





section \<open>The mean of the most recent samples\<close>

text \<open>The \<open>n\<close> most recent elements of a list in time order, and the mean rate of the five
  most recent samples (of all of them when there are fewer).\<close>

definition most_recent :: "nat \<Rightarrow> 'a list \<Rightarrow> 'a list" where
  "most_recent n xs = rev (take n (rev xs))"

definition recent_mean :: "live_sample list \<Rightarrow> rat" where
  "recent_mean samples =
     sum_list (map ls_rate (most_recent 5 samples)) / of_nat (length (most_recent 5 samples))"

section \<open>Aggregates, stated as sums\<close>

text \<open>The data filed under the key \<open>k\<close> in a list of keyed entries, in order.\<close>

definition entries_for :: "'k \<Rightarrow> ('k \<times> 'd) list \<Rightarrow> 'd list" where
  "entries_for k items = map snd (filter (\<lambda>kd. fst kd = k) items)"

text \<open>
  The conversations that count for the hourly buckets, each under its hour, and the bucket of
  an hour as the sums over the conversations of that hour.
\<close>

definition hour_items :: "(int \<Rightarrow> int) \<Rightarrow> conversation list \<Rightarrow> (nat \<times> conversation) list" where
  "hour_items tz conversations =
     map (\<lambda>c. (getHours tz (the (startTime c)), c))
       (filter (\<lambda>c. totalCost c > 0 \<and> startTime c \<noteq> None) conversations)"

definition hour_bucket :: "(int \<Rightarrow> int) \<Rightarrow> conversation list \<Rightarrow> nat \<Rightarrow> hourly_bucket" where
  "hour_bucket tz conversations h =
     (let cs = entries_for h (hour_items tz conversations)
      in \<lparr>hb_hour = h, hb_totalCost = sum_list (map totalCost cs),
          hb_totalTokens = sum_list (map (\<lambda>c. ut_total (totalTokens c)) cs),
          hb_conversationCount = length cs\<rparr>)"

section \<open>Aggregates without their floating-point sums\<close>







section \<open>Sample records\<close>

text \<open>A log record with no field set, and a metadata object with no field set.\<close>

definition empty_message :: message where
  "empty_message =
     \<lparr>m_type = None, m_timestamp = None, m_sessionId = None, m_cwd = None, m_user = None,
      m_service_tier = None, m_parentUUID = None, m_summary = None, m_metadata = None,
      m_text = None, m_tool_use = None, m_tool_use_id = None, m_is_error = None,
      m_content = None, m_message = None, m_id = None, m_UUID = None, m_role = None,
      m_requestID = None\<rparr>"

definition empty_metadata :: metadata where
  "empty_metadata =
     \<lparr>md_workingDirectory = None, md_cwd = None, md_thread_summary = None, md_summary = None\<rparr>"

definition empty_usage :: usage where
  "empty_usage =
     \<lparr>input_tokens = None, output_tokens = None, cache_creation_input_tokens = None,
      cache_read_input_tokens = None\<rparr>"

text \<open>An assistant record with a usage of \<open>n\<close> input tokens, at the instant \<open>t\<close>.\<close>

definition assistant_message :: "int \<Rightarrow> nat \<Rightarrow> message" where
  "assistant_message t n =
     empty_message\<lparr>m_type := Some ''assistant'', m_timestamp := Some t,
       m_message := Some \<lparr>im_usage = Some (empty_usage\<lparr>input_tokens := Some n\<rparr>),
                          im_model = Some ''claude-sonnet-4-20250514''\<rparr>\<rparr>"


definition sample_pricing :: pricing_table where
  "sample_pricing = [''default'' \<mapsto> fallback_pricing]"

text \<open>The alert thresholds of \<open>ConfigManager.defaults\<close>, and a session with given burn rates.\<close>

definition default_thresholds :: alert_thresholds where
  "default_thresholds =
     \<lparr>al_enabled = True, al_dailyCostThreshold = 10, al_sessionCostThreshold = 2,
      al_tokenBurnRateThreshold = 10000, al_soundEnabled = False\<rparr>"

definition session_with_rates :: "rat list \<Rightarrow> session" where
  "session_with_rates rates =
     (new_session ''s'' 0)\<lparr>s_tokenBurnRate :=
        map (\<lambda>r. \<lparr>ls_timestamp = 0, ls_rate = r, ls_tokens = 0\<rparr>) rates\<rparr>"

text \<open>
  A log file of two assistant records one minute apart, and the session table after
  \<open>k\<close> change notifications for that file, each handled by \<open>processFileUpdate\<close>.
\<close>

definition two_line_file :: "jsonl_line list" where
  "two_line_file = [JsonObject (assistant_message 0 1000), JsonObject (assistant_message 60000 1000)]"

fun notify :: "nat \<Rightarrow> (string \<rightharpoonup> session)" where
  "notify 0 = Map.empty"
| "notify (Suc k) =
     fst (processFileUpdate default_thresholds Map.empty (\<lambda>i. 0) 0 (notify k) two_line_file ''s'')"

text \<open>What one such notification makes of the session.\<close>

definition after_two_lines :: "session \<Rightarrow> session" where
  "after_two_lines s0 = keep_recent (foldl apply_update s0
     [the (parse_update Map.empty ''s'' 0 (JsonObject (assistant_message 0 1000))),
      the (parse_update Map.empty ''s'' 0 (JsonObject (assistant_message 60000 1000)))])"

text \<open>A conversation that started at the instant \<open>t\<close> and cost \<open>cost\<close>.\<close>

definition conversation_at :: "int \<Rightarrow> jsnum \<Rightarrow> conversation" where
  "conversation_at t cost = initial_conversation\<lparr>startTime := Some t, totalCost := cost\<rparr>"

text \<open>
  \<open>ConfigManager.defaults\<close>, and a persisted configuration that carries the three keys at
  the top level, inside a section of the defaults, and inside a new pricing entry.
\<close>

definition config_defaults :: json where
  "config_defaults =
     JObj [(''alerts'', JObj [(''enabled'', JBool True), (''dailyCostThreshold'', JNum 10),
              (''sessionCostThreshold'', JNum 2), (''tokenBurnRateThreshold'', JNum 10000),
              (''soundEnabled'', JBool False)]),
           (''display'', JObj [(''currency'', JStr ''USD''), (''currencySymbol'', JStr ''$''),
              (''dateFormat'', JStr ''MM/DD/YYYY''), (''timeFormat'', JStr ''12h''),
              (''theme'', JStr ''light''), (''chartAnimations'', JBool True)]),
           (''export'', JObj [(''defaultFormat'', JStr ''html''), (''includeRawData'', JBool False),
              (''compressOutput'', JBool False)]),
           (''monitoring'', JObj [(''autoRefresh'', JBool False), (''refreshInterval'', JNum 300),
              (''showNotifications'', JBool True)]),
           (''filters'', JObj [(''defaultDateRange'', JNum 30),
              (''excludeZeroCostConversations'', JBool True), (''minConversationDuration'', JNum 0)]),
           (''pricing'', JObj [(''customPricing'', JObj []), (''useCachedPricing'', JBool True)])]"

definition hostile_config :: json where
  "hostile_config =
     JObj [(''__proto__'', JObj [(''polluted'', JBool True)]),
           (''alerts'', JObj [(''constructor'', JNum 1), (''enabled'', JBool False)]),
           (''pricing'', JObj [(''customPricing'',
              JObj [(''m'', JObj [(''constructor'', JNum 1),
                                  (''__proto__'', JObj [(''polluted'', JBool True)])])])])]"








section \<open>Numbers and dictionaries\<close>

lemma jsnum_plus [simp]:
  "Num a + Num b = Num (a + b)" "NaN + x = NaN" "x + NaN = NaN"
  by (simp_all add: plus_jsnum_def split: jsnum.splits)

lemma jsnum_less [simp]:
  "Num a < Num b \<longleftrightarrow> a < b" "\<not> NaN < x" "\<not> x < NaN"
  "Num a \<le> Num b \<longleftrightarrow> a \<le> b" "\<not> NaN \<le> x" "\<not> x \<le> NaN"
  by (simp_all add: less_jsnum_def less_eq_jsnum_def split: jsnum.splits)

lemma jsnum_zero [simp]:
  "0 < Num a \<longleftrightarrow> 0 < a" "Num a < 0 \<longleftrightarrow> a < 0" "0 \<le> Num a \<longleftrightarrow> 0 \<le> a" "Num a \<le> 0 \<longleftrightarrow> a \<le> 0"
  "\<not> (0::jsnum) < 0" "(0::jsnum) \<le> 0" "NaN \<noteq> 0" "0 \<noteq> NaN" "Num a = 0 \<longleftrightarrow> a = 0"
  "0 = Num a \<longleftrightarrow> a = 0"
  by (auto simp: less_jsnum_def less_eq_jsnum_def zero_jsnum_def)

lemma jsnum_positive: "0 < x \<Longrightarrow> \<exists>r. x = Num r \<and> 0 < r"
  by (cases x) simp_all

lemma jsnum_sum_nonneg: "(\<And>x. x \<in> set xs \<Longrightarrow> (0::jsnum) < x) \<Longrightarrow> 0 \<le> sum_list xs"
proof (induction xs)
  case Nil
  then show ?case by simp
next
  case (Cons x xs)
  from Cons.prems[of x] obtain r where r: "x = Num r" "0 < r" using jsnum_positive by auto
  from Cons have "0 \<le> sum_list xs" by simp
  then obtain s where s: "sum_list xs = Num s" "0 \<le> s" by (cases "sum_list xs") simp_all
  show ?case using r s by simp
qed


section \<open>Pricing: the cost formula\<close>

text \<open>
  C1 (the code against the claim). With a pricing table that has its \<open>default\<close> entry,
  \<open>calculateCost\<close> never throws, and for a model with an entry of its own, or with none and a
  name that no object inherits, it returns the four counters (absent ones read as zero)
  weighted by the rates of that entry, or of the \<open>default\<close> entry, divided by one million.
  For a model without an entry whose name is that of a member of \<open>Object.prototype\<close> the
  default entry is not read and the cost is \<open>NaN\<close>.
\<close>

theorem calculateCost_inherited_name:
  assumes "pricing ''default'' = Some d"
  shows "(\<exists>c. calculateCost pricing usage model = Inr c)
       \<and> (pricing model = Some r \<longrightarrow>
            calculateCost pricing (Some u) model = Inr (Num (priced_at r u)))
       \<and> (pricing model = None \<and> model \<notin> set object_prototype_names \<longrightarrow>
            calculateCost pricing (Some u) model = Inr (Num (priced_at d u)))
       \<and> (pricing model = None \<and> model \<in> set object_prototype_names \<longrightarrow>
            calculateCost pricing (Some u) model = Inr NaN)"
proof -
  have look: "lookup_pricing pricing model =
      (case pricing model of
         Some r \<Rightarrow> Own r
       | None \<Rightarrow> if model \<in> set object_prototype_names then Inherited else Own d)"
    using assms by (cases "pricing model") (simp_all add: lookup_pricing_def get_property_def)
  have ex: "\<exists>c. calculateCost pricing usage model = Inr c"
  proof (cases usage)
    case None
    then show ?thesis by (simp add: calculateCost_def)
  next
    case (Some u)
    show ?thesis
      by (cases "pricing model"; cases "model \<in> set object_prototype_names")
         (simp_all add: Some calculateCost_def look Let_def)
  qed
  have own: "calculateCost pricing (Some u) model = Inr (Num (priced_at r u))"
    if "pricing model = Some r"
    using that by (simp add: calculateCost_def look Let_def priced_at_def add_divide_distrib)
  have dflt: "calculateCost pricing (Some u) model = Inr (Num (priced_at d u))"
    if "pricing model = None" "model \<notin> set object_prototype_names"
    using that by (simp add: calculateCost_def look Let_def priced_at_def add_divide_distrib)
  have inh: "calculateCost pricing (Some u) model = Inr NaN"
    if "pricing model = None" "model \<in> set object_prototype_names"
    using that by (simp add: calculateCost_def look)
  from ex own dflt inh show ?thesis by blast
qed

text \<open>
  One million input tokens of an unknown model cost 3 at the default input rate of 3, and
  \<open>NaN\<close> when the unknown model is called \<open>constructor\<close>.
\<close>

theorem calculateCost_inherited_name_witness:
  "calculateCost sample_pricing
     (Some \<lparr>input_tokens = Some 1000000, output_tokens = Some 0,
            cache_creation_input_tokens = Some 0, cache_read_input_tokens = Some 0\<rparr>)
     ''some-unknown-model'' = Inr (Num 3)
   \<and> calculateCost sample_pricing
     (Some \<lparr>input_tokens = Some 1000000, output_tokens = Some 0,
            cache_creation_input_tokens = Some 0, cache_read_input_tokens = Some 0\<rparr>)
     ''constructor'' = Inr NaN"
  using calculateCost_inherited_name
    [of sample_pricing fallback_pricing None "''some-unknown-model''" undefined
        "\<lparr>input_tokens = Some 1000000, output_tokens = Some 0,
          cache_creation_input_tokens = Some 0, cache_read_input_tokens = Some 0\<rparr>"]
    calculateCost_inherited_name
    [of sample_pricing fallback_pricing None "''constructor''" undefined
        "\<lparr>input_tokens = Some 1000000, output_tokens = Some 0,
          cache_creation_input_tokens = Some 0, cache_read_input_tokens = Some 0\<rparr>"]
  by (simp add: sample_pricing_def fallback_pricing_def priced_at_def or0_def
      object_prototype_names_def)

section \<open>Token totals\<close>

lemma tt_extract_session_id: "totalTokens (extract_session_id m c) = totalTokens c"
  by (simp add: extract_session_id_def)

lemma tt_extract_metadata: "totalTokens (extract_metadata m c) = totalTokens c"
  by (cases "m_metadata m") (simp_all add: extract_metadata_def Let_def)

lemma tt_capture: "totalTokens (capture_first_user_message m c) = totalTokens c"
  by (simp add: capture_first_user_message_def)

lemma tt_track_sets: "totalTokens (track_sets m c) = totalTokens c"
  by (simp add: track_sets_def Let_def)

lemma tt_extract_tool_use: "extract_tool_use m c = Inr c' \<Longrightarrow> totalTokens c' = totalTokens c"
  by (auto simp: extract_tool_use_def Let_def split: if_splits js_lookup.splits)

lemma tt_track_tool_result: "totalTokens (track_tool_result m c) = totalTokens c"
  by (simp add: track_tool_result_def)

lemma tt_extract_command: "totalTokens (extract_command m c) = totalTokens c"
  by (simp add: extract_command_def split: option.splits)

lemma tt_store_message: "totalTokens (store_message m c) = totalTokens c"
  by (simp add: store_message_def)

lemma tt_track_time_range: "totalTokens (track_time_range m c) = totalTokens c"
  by (simp add: track_time_range_def Let_def split: option.splits)

lemma tt_before_tools: "totalTokens (before_tools m c) = totalTokens c"
  by (simp add: before_tools_def tt_track_sets tt_capture tt_extract_metadata tt_extract_session_id)

lemma tt_after_tools: "totalTokens (after_tools m c) = totalTokens c"
  by (simp add: after_tools_def tt_extract_command tt_track_tool_result)

lemma tt_finalize: "totalTokens (finalize baseName c) = totalTokens c"
  by (simp add: finalize_def Let_def split: option.splits)

lemma tt_account_cost:
  "account_cost m model cost tokens st = Inr st' \<or> account_cost m model cost tokens st = Inl (e, st')
     \<Longrightarrow> totalTokens (ps_conversation st') = add_tokens (totalTokens (ps_conversation st)) tokens"
  by (auto simp: account_cost_def Let_def split: js_lookup.splits)

lemma consistent_calculateTokens: "consistent_tokens (calculateTokens usage)"
  by (cases usage) (simp_all add: consistent_tokens_def calculateTokens_def zero_tokens_def)

lemma consistent_add_tokens:
  "consistent_tokens a \<Longrightarrow> consistent_tokens b \<Longrightarrow> consistent_tokens (add_tokens a b)"
  by (simp add: consistent_tokens_def add_tokens_def)

lemma extract_cost_cases:
  assumes "extract_cost pricing m st = Inr st' \<or> extract_cost pricing m st = Inl (e, st')"
  shows "st' = st \<or> (\<exists>model cost tokens.
      account_cost m model cost tokens st = Inr st'
      \<or> account_cost m model cost tokens st = Inl (e, st'))"
  using assms by (auto simp: extract_cost_def split: if_splits option.splits sum.splits)

lemma extract_cost_tokens:
  assumes "extract_cost pricing m st = Inr st' \<or> extract_cost pricing m st = Inl (e, st')"
  shows "st' = st \<or> (\<exists>model cost u.
      account_cost m model cost (calculateTokens (Some u)) st = Inr st'
      \<or> account_cost m model cost (calculateTokens (Some u)) st = Inl (e, st'))"
  using assms by (auto simp: extract_cost_def split: if_splits option.splits sum.splits)

lemma consistent_extract_cost:
  assumes "extract_cost pricing m st = Inr st' \<or> extract_cost pricing m st = Inl (e, st')"
    and "consistent_tokens (totalTokens (ps_conversation st))"
  shows "consistent_tokens (totalTokens (ps_conversation st'))"
proof -
  from extract_cost_tokens[OF assms(1)] show ?thesis
  proof
    assume "st' = st"
    then show ?thesis using assms(2) by simp
  next
    assume "\<exists>model cost u.
      account_cost m model cost (calculateTokens (Some u)) st = Inr st'
      \<or> account_cost m model cost (calculateTokens (Some u)) st = Inl (e, st')"
    then obtain model cost u where
      "account_cost m model cost (calculateTokens (Some u)) st = Inr st'
      \<or> account_cost m model cost (calculateTokens (Some u)) st = Inl (e, st')"
      by blast
    from tt_account_cost[OF this] show ?thesis
      using assms(2) consistent_add_tokens consistent_calculateTokens by simp
  qed
qed

text \<open>The three ways a record leaves the loop body.\<close>

lemma process_line_cases:
  fixes pricing st m
  defines "c1 \<equiv> before_tools m (ps_conversation st)"
  obtains (tool_throws) e where "extract_tool_use m c1 = Inl e"
      "process_line pricing st (JsonObject m) = st\<lparr>ps_conversation := c1\<rparr>"
  | (cost_throws) c2 e st' where "extract_tool_use m c1 = Inr c2"
      "extract_cost pricing m (st\<lparr>ps_conversation := after_tools m c2\<rparr>) = Inl (e, st')"
      "process_line pricing st (JsonObject m) = st'"
  | (completes) c2 st2 where "extract_tool_use m c1 = Inr c2"
      "extract_cost pricing m (st\<lparr>ps_conversation := after_tools m c2\<rparr>) = Inr st2"
      "process_line pricing st (JsonObject m) =
         st2\<lparr>ps_conversation := track_time_range m (store_message m (ps_conversation st2))\<rparr>"
proof (cases "extract_tool_use m c1")
  case (Inl e)
  then show ?thesis using tool_throws by (simp add: c1_def)
next
  case (Inr c2)
  show ?thesis
  proof (cases "extract_cost pricing m (st\<lparr>ps_conversation := after_tools m c2\<rparr>)")
    case (Inl p)
    obtain e st' where p: "p = (e, st')" by (cases p)
    show ?thesis using cost_throws[OF Inr Inl[unfolded p]] Inr Inl by (simp add: c1_def p)
  next
    case r: (Inr st2)
    show ?thesis using completes[OF Inr r] Inr r by (simp add: c1_def)
  qed
qed

lemma consistent_process_line:
  assumes "consistent_tokens (totalTokens (ps_conversation st))"
  shows "consistent_tokens (totalTokens (ps_conversation (process_line pricing st l)))"
proof (cases l)
  case (JsonObject m)
  show ?thesis
  proof (cases rule: process_line_cases[where pricing = pricing and st = st and m = m])
    case (tool_throws e)
    then show ?thesis using assms by (simp add: JsonObject tt_before_tools del: process_line.simps)
  next
    case (cost_throws c2 e st')
    have "consistent_tokens (totalTokens (ps_conversation (st\<lparr>ps_conversation := after_tools m c2\<rparr>)))"
      using assms tt_extract_tool_use[OF cost_throws(1)] by (simp add: tt_after_tools tt_before_tools)
    from consistent_extract_cost[OF disjI2[OF cost_throws(2)] this] show ?thesis
      by (simp add: JsonObject cost_throws(3) del: process_line.simps)
  next
    case (completes c2 st2)
    have "consistent_tokens (totalTokens (ps_conversation (st\<lparr>ps_conversation := after_tools m c2\<rparr>)))"
      using assms tt_extract_tool_use[OF completes(1)] by (simp add: tt_after_tools tt_before_tools)
    from consistent_extract_cost[OF disjI1[OF completes(2)] this] show ?thesis
      by (simp add: JsonObject completes(3) tt_track_time_range tt_store_message
          del: process_line.simps)
  qed
qed (use assms in simp_all)

lemma consistent_foldl:
  "consistent_tokens (totalTokens (ps_conversation st)) \<Longrightarrow>
   consistent_tokens (totalTokens (ps_conversation (foldl (process_line pricing) st ls)))"
  by (induction ls arbitrary: st) (simp_all add: consistent_process_line)

lemma consistent_parse: "consistent_tokens (totalTokens (parseJSONLFile pricing baseName ls))"
  unfolding parseJSONLFile_def tt_finalize
  by (rule consistent_foldl)
     (simp add: initial_state_def initial_conversation_def consistent_tokens_def zero_tokens_def)

text \<open>
  C2. For every usage object, and for an absent one, the record returned by
  \<open>calculateTokens\<close> has \<open>total\<close> equal to the sum of its four components, and the components
  are the usage's four counters, read as zero when absent. The token record of every
  assistant event is such a record, and so the totals of a conversation, which add these
  records field by field, keep \<open>total\<close> equal to the sum of the four components.
\<close>

theorem calculateTokens_total:
  "ut_total (calculateTokens usage) =
     ut_input (calculateTokens usage) + ut_output (calculateTokens usage)
       + ut_cacheWrite (calculateTokens usage) + ut_cacheRead (calculateTokens usage)
   \<and> calculateTokens None = \<lparr>ut_total = 0, ut_input = 0, ut_output = 0, ut_cacheWrite = 0, ut_cacheRead = 0\<rparr>
   \<and> ut_input (calculateTokens (Some u)) = or0 (input_tokens u)
   \<and> ut_output (calculateTokens (Some u)) = or0 (output_tokens u)
   \<and> ut_cacheWrite (calculateTokens (Some u)) = or0 (cache_creation_input_tokens u)
   \<and> ut_cacheRead (calculateTokens (Some u)) = or0 (cache_read_input_tokens u)
   \<and> consistent_tokens (totalTokens (parseJSONLFile pricing baseName ls))"
proof -
  have "consistent_tokens (calculateTokens usage)" by (rule consistent_calculateTokens)
  then have total: "ut_total (calculateTokens usage) =
     ut_input (calculateTokens usage) + ut_output (calculateTokens usage)
       + ut_cacheWrite (calculateTokens usage) + ut_cacheRead (calculateTokens usage)"
    by (simp add: consistent_tokens_def)
  have parts: "calculateTokens None = \<lparr>ut_total = 0, ut_input = 0, ut_output = 0, ut_cacheWrite = 0, ut_cacheRead = 0\<rparr>
   \<and> ut_input (calculateTokens (Some u)) = or0 (input_tokens u)
   \<and> ut_output (calculateTokens (Some u)) = or0 (output_tokens u)
   \<and> ut_cacheWrite (calculateTokens (Some u)) = or0 (cache_creation_input_tokens u)
   \<and> ut_cacheRead (calculateTokens (Some u)) = or0 (cache_read_input_tokens u)"
    by (simp add: calculateTokens_def zero_tokens_def)
  from total parts consistent_parse show ?thesis by blast
qed

section \<open>The title of a conversation\<close>

subsection \<open>What each block of the loop does to the title fields\<close>

lemma truthy_strval: "truthy s \<Longrightarrow> s = Some (strval s) \<and> strval s \<noteq> []"
  by (auto simp: truthy_def strval_def split: option.splits list.splits)

lemma truthy_case [simp]:
  "truthy s \<Longrightarrow> (case s of None \<Rightarrow> a | Some t \<Rightarrow> f t) = f (strval s)"
  by (auto simp: truthy_def strval_def split: option.splits list.splits)

lemma tf_extract_session_id: "title_fields (extract_session_id m c) = title_fields c"
  by (simp add: extract_session_id_def title_fields_def)

lemma tf_track_sets: "title_fields (track_sets m c) = title_fields c"
  by (simp add: track_sets_def title_fields_def Let_def)

lemma tf_extract_tool_use: "extract_tool_use m c = Inr c' \<Longrightarrow> title_fields c' = title_fields c"
  by (auto simp: extract_tool_use_def title_fields_def Let_def split: if_splits js_lookup.splits)

lemma tf_track_tool_result: "title_fields (track_tool_result m c) = title_fields c"
  by (simp add: track_tool_result_def title_fields_def)

lemma tf_extract_command: "title_fields (extract_command m c) = title_fields c"
  by (simp add: extract_command_def title_fields_def split: option.splits)

lemma tf_store_message: "title_fields (store_message m c) = title_fields c"
  by (simp add: store_message_def title_fields_def)

lemma tf_track_time_range: "title_fields (track_time_range m c) = title_fields c"
  by (simp add: track_time_range_def title_fields_def Let_def split: option.splits)

lemma tf_account_cost:
  "account_cost m model cost tokens st = Inr st' \<or> account_cost m model cost tokens st = Inl (e, st')
     \<Longrightarrow> title_fields (ps_conversation st') = title_fields (ps_conversation st)"
  by (auto simp: account_cost_def title_fields_def Let_def split: js_lookup.splits)

lemma tf_extract_cost:
  "extract_cost pricing m st = Inr st' \<or> extract_cost pricing m st = Inl (e, st') \<Longrightarrow>
     title_fields (ps_conversation st') = title_fields (ps_conversation st)"
  using extract_cost_cases[of pricing m st st' e] tf_account_cost[of m _ _ _ st st' e] by blast

lemma title_extract_metadata:
  "conversationTitle (extract_metadata m c) =
     (case explicit_title_of (JsonObject m) of Some t \<Rightarrow> t | None \<Rightarrow> conversationTitle c)"
  by (cases "m_metadata m")
     (auto simp: extract_metadata_def explicit_title_of_def Let_def dest: truthy_strval)

lemma summary_extract_metadata:
  "summary (extract_metadata m c) =
     (case running_summary_of (JsonObject m) of Some t \<Rightarrow> t | None \<Rightarrow> summary c)"
  by (cases "m_metadata m")
     (auto simp: extract_metadata_def running_summary_of_def Let_def dest: truthy_strval)

lemma first_extract_metadata: "firstUserMessage (extract_metadata m c) = firstUserMessage c"
  by (cases "m_metadata m") (auto simp: extract_metadata_def Let_def)

lemma title_capture: "conversationTitle (capture_first_user_message m c) = conversationTitle c"
  by (simp add: capture_first_user_message_def)

lemma summary_capture: "summary (capture_first_user_message m c) = summary c"
  by (simp add: capture_first_user_message_def)

lemma first_capture:
  "firstUserMessage (capture_first_user_message m c) =
     (if firstUserMessage c = [] then
        (case user_text_of (JsonObject m) of Some t \<Rightarrow> take 100 t | None \<Rightarrow> [])
      else firstUserMessage c)"
  by (auto simp: capture_first_user_message_def user_text_of_def dest: truthy_strval)

lemma tf_before_tools:
  "title_fields (before_tools m c) =
     ((case explicit_title_of (JsonObject m) of Some t \<Rightarrow> t | None \<Rightarrow> conversationTitle c),
      (case running_summary_of (JsonObject m) of Some t \<Rightarrow> t | None \<Rightarrow> summary c),
      (if firstUserMessage c = [] then
        (case user_text_of (JsonObject m) of Some t \<Rightarrow> take 100 t | None \<Rightarrow> [])
      else firstUserMessage c))"
proof -
  have "title_fields (before_tools m c)
          = title_fields (capture_first_user_message m (extract_metadata m (extract_session_id m c)))"
    by (simp add: before_tools_def tf_track_sets)
  also have "\<dots> = ((case explicit_title_of (JsonObject m) of Some t \<Rightarrow> t
                       | None \<Rightarrow> conversationTitle (extract_session_id m c)),
      (case running_summary_of (JsonObject m) of Some t \<Rightarrow> t | None \<Rightarrow> summary (extract_session_id m c)),
      (if firstUserMessage (extract_session_id m c) = [] then
        (case user_text_of (JsonObject m) of Some t \<Rightarrow> take 100 t | None \<Rightarrow> [])
      else firstUserMessage (extract_session_id m c)))"
    unfolding title_fields_def
    by (simp only: title_capture summary_capture first_capture title_extract_metadata
        summary_extract_metadata first_extract_metadata)
  finally show ?thesis
    using tf_extract_session_id[of m c] unfolding title_fields_def by (simp only: prod.inject)
qed

lemma tf_after_tools: "title_fields (after_tools m c) = title_fields c"
  by (simp add: after_tools_def tf_extract_command tf_track_tool_result)

lemma tf_process_line:
  "title_fields (ps_conversation (process_line pricing st l)) =
     ((case explicit_title_of l of Some t \<Rightarrow> t | None \<Rightarrow> conversationTitle (ps_conversation st)),
      (case running_summary_of l of Some t \<Rightarrow> t | None \<Rightarrow> summary (ps_conversation st)),
      (if firstUserMessage (ps_conversation st) = [] then
        (case user_text_of l of Some t \<Rightarrow> take 100 t | None \<Rightarrow> [])
      else firstUserMessage (ps_conversation st)))"
proof (cases l)
  case Malformed
  then show ?thesis
    by (simp add: title_fields_def explicit_title_of_def running_summary_of_def user_text_of_def)
next
  case JsonNull
  then show ?thesis
    by (simp add: title_fields_def explicit_title_of_def running_summary_of_def user_text_of_def)
next
  case (JsonObject m)
  have "title_fields (ps_conversation (process_line pricing st (JsonObject m)))
          = title_fields (before_tools m (ps_conversation st))"
  proof (cases rule: process_line_cases[where pricing = pricing and st = st and m = m])
    case (tool_throws e)
    then show ?thesis by (simp del: process_line.simps)
  next
    case (cost_throws c2 e st')
    from tf_extract_cost[OF disjI2[OF cost_throws(2)]] tf_extract_tool_use[OF cost_throws(1)]
    show ?thesis by (simp add: cost_throws(3) tf_after_tools del: process_line.simps)
  next
    case (completes c2 st2)
    from tf_extract_cost[OF disjI1[OF completes(2)]] tf_extract_tool_use[OF completes(1)]
    show ?thesis
      by (simp add: completes(3) tf_after_tools tf_track_time_range tf_store_message
          del: process_line.simps)
  qed
  then show ?thesis
    unfolding JsonObject tf_before_tools by simp
qed

lemma explicit_title_nonempty: "explicit_title_of l = Some t \<Longrightarrow> t \<noteq> []"
  by (auto simp: explicit_title_of_def truthy_def split: jsonl_line.splits option.splits if_splits list.splits)

lemma running_summary_nonempty: "running_summary_of l = Some t \<Longrightarrow> t \<noteq> []"
  by (auto simp: running_summary_of_def truthy_def split: jsonl_line.splits option.splits if_splits list.splits)

lemma user_text_nonempty: "user_text_of l = Some t \<Longrightarrow> take 100 t \<noteq> []"
  by (auto simp: user_text_of_def truthy_def split: jsonl_line.splits option.splits if_splits list.splits)

lemma title_foldl:
  "conversationTitle (ps_conversation (foldl (process_line pricing) st ls)) =
     (case last_some (map explicit_title_of ls) of
        Some t \<Rightarrow> t | None \<Rightarrow> conversationTitle (ps_conversation st))"
proof (induction ls arbitrary: st)
  case Nil
  then show ?case by simp
next
  case (Cons l ls)
  have "conversationTitle (ps_conversation (process_line pricing st l)) =
          (case explicit_title_of l of Some t \<Rightarrow> t | None \<Rightarrow> conversationTitle (ps_conversation st))"
    using tf_process_line[of pricing st l] by (simp add: title_fields_def)
  then show ?case
    by (simp add: Cons.IH split: option.splits)
qed

lemma summary_foldl:
  "summary (ps_conversation (foldl (process_line pricing) st ls)) =
     (case last_some (map running_summary_of ls) of
        Some t \<Rightarrow> t | None \<Rightarrow> summary (ps_conversation st))"
proof (induction ls arbitrary: st)
  case Nil
  then show ?case by simp
next
  case (Cons l ls)
  have "summary (ps_conversation (process_line pricing st l)) =
          (case running_summary_of l of Some t \<Rightarrow> t | None \<Rightarrow> summary (ps_conversation st))"
    using tf_process_line[of pricing st l] by (simp add: title_fields_def)
  then show ?case
    by (simp add: Cons.IH split: option.splits)
qed

lemma first_foldl_nonempty:
  "firstUserMessage (ps_conversation st) \<noteq> [] \<Longrightarrow>
     firstUserMessage (ps_conversation (foldl (process_line pricing) st ls))
       = firstUserMessage (ps_conversation st)"
proof (induction ls arbitrary: st)
  case Nil
  then show ?case by simp
next
  case (Cons l ls)
  have "firstUserMessage (ps_conversation (process_line pricing st l))
          = firstUserMessage (ps_conversation st)"
    using tf_process_line[of pricing st l] Cons.prems by (simp add: title_fields_def)
  then show ?case using Cons by simp
qed

lemma first_foldl:
  "firstUserMessage (ps_conversation st) = [] \<Longrightarrow>
     firstUserMessage (ps_conversation (foldl (process_line pricing) st ls)) =
       (case first_some (map user_text_of ls) of Some t \<Rightarrow> take 100 t | None \<Rightarrow> [])"
proof (induction ls arbitrary: st)
  case Nil
  then show ?case by simp
next
  case (Cons l ls)
  have step: "firstUserMessage (ps_conversation (process_line pricing st l)) =
          (case user_text_of l of Some t \<Rightarrow> take 100 t | None \<Rightarrow> [])"
    using tf_process_line[of pricing st l] Cons.prems by (simp add: title_fields_def)
  show ?case
  proof (cases "user_text_of l")
    case None
    then show ?thesis using step Cons.IH[of "process_line pricing st l"] by simp
  next
    case (Some t)
    then have "firstUserMessage (ps_conversation (process_line pricing st l)) \<noteq> []"
      using step user_text_nonempty[OF Some] by simp
    then show ?thesis
      using first_foldl_nonempty[of "process_line pricing st l" pricing ls] step Some by simp
  qed
qed

lemma finalize_title:
  "conversationTitle (finalize baseName c) =
     take 100 (flatten_newlines
       (if conversationTitle c \<noteq> [] then conversationTitle c
        else if summary c \<noteq> [] then summary c
        else if firstUserMessage c \<noteq> [] then firstUserMessage c
        else ''Untitled conversation''))"
  by (simp add: finalize_def Let_def split: option.splits)

lemma last_some_nonempty:
  "(\<And>x t. x \<in> set xs \<Longrightarrow> f x = Some t \<Longrightarrow> t \<noteq> []) \<Longrightarrow> last_some (map f xs) = Some t \<Longrightarrow> t \<noteq> []"
  by (induction xs arbitrary: t) (auto split: option.splits)

text \<open>
  C4 (as amended). The title of the conversation built from the lines of one file is chosen
  in this order: the explicit title assigned last, where a summary record with metadata
  assigns the \<open>summary\<close> field of its metadata when that is non-empty and else its non-empty
  \<open>thread_summary\<close>; then the summary text set last; then the first non-empty user text cut
  to 100 characters; then the literal \<open>Untitled conversation\<close>. Whatever is chosen, every
  newline becomes a space and the result is cut to 100 characters.
\<close>

theorem title_resolution:
  "conversationTitle (parseJSONLFile pricing baseName lines)
      = take 100 (flatten_newlines (resolve_title lines))
   \<and> length (conversationTitle (parseJSONLFile pricing baseName lines)) \<le> 100
   \<and> CHR 0x0A \<notin> set (conversationTitle (parseJSONLFile pricing baseName lines))"
proof -
  let ?c = "ps_conversation (foldl (process_line pricing) initial_state lines)"
  have t: "conversationTitle ?c =
      (case last_some (map explicit_title_of lines) of Some t \<Rightarrow> t | None \<Rightarrow> [])"
    by (simp add: title_foldl initial_state_def initial_conversation_def split: option.splits)
  have s: "summary ?c =
      (case last_some (map running_summary_of lines) of Some t \<Rightarrow> t | None \<Rightarrow> [])"
    by (simp add: summary_foldl initial_state_def initial_conversation_def split: option.splits)
  have f: "firstUserMessage ?c =
      (case first_some (map user_text_of lines) of Some t \<Rightarrow> take 100 t | None \<Rightarrow> [])"
    by (rule first_foldl) (simp add: initial_state_def initial_conversation_def)
  have ne1: "last_some (map explicit_title_of lines) = Some x \<Longrightarrow> x \<noteq> []" for x
    using last_some_nonempty[of lines explicit_title_of x] explicit_title_nonempty by blast
  have ne2: "last_some (map running_summary_of lines) = Some x \<Longrightarrow> x \<noteq> []" for x
    using last_some_nonempty[of lines running_summary_of x] running_summary_nonempty by blast
  have ne3: "first_some (map user_text_of lines) = Some x \<Longrightarrow> take 100 x \<noteq> []" for x
  proof (induction lines)
    case Nil
    then show ?case by simp
  next
    case (Cons l ls)
    then show ?case using user_text_nonempty by (auto split: option.splits)
  qed
  have chosen: "(if conversationTitle ?c \<noteq> [] then conversationTitle ?c
        else if summary ?c \<noteq> [] then summary ?c
        else if firstUserMessage ?c \<noteq> [] then firstUserMessage ?c
        else ''Untitled conversation'') = resolve_title lines"
    unfolding t s f resolve_title_def
    using ne1 ne2 ne3 by (auto split: option.splits)
  have eq: "conversationTitle (parseJSONLFile pricing baseName lines)
      = take 100 (flatten_newlines (resolve_title lines))"
    unfolding parseJSONLFile_def finalize_title chosen ..
  have nl: "CHR 0x0A \<notin> set (flatten_newlines x)" for x
    by (auto simp: flatten_newlines_def)
  have "CHR 0x0A \<notin> set (take 100 (flatten_newlines (resolve_title lines)))"
    using nl in_set_takeD by fastforce
  with eq show ?thesis by simp
qed

lemmas parser_defs =
  parseJSONLFile_def finalize_def initial_state_def initial_conversation_def before_tools_def
  after_tools_def get_property_def object_prototype_names_def
  extract_session_id_def extract_metadata_def capture_first_user_message_def track_sets_def
  extract_tool_use_def track_tool_result_def extract_command_def extract_cost_def
  account_cost_def store_message_def track_time_range_def burn_rate_step_def
  minutes_between_def calculateCost_def calculateTokens_def lookup_pricing_def
  truthy_def strval_def or0_def flatten_newlines_def upsert_def set_add_def
  empty_message_def empty_metadata_def empty_usage_def assistant_message_def zero_tokens_def
  add_tokens_def new_model_usage_def record_model_use_def new_tool_usage_def
  record_execution_def command_match_def Let_def sample_pricing_def fallback_pricing_def

theorem title_resolution_witness:
  "conversationTitle
     (parseJSONLFile Map.empty ''f''
        [JsonObject (empty_message\<lparr>m_type := Some ''user'', m_text := Some [CHR ''a'', CHR 0x0A, CHR ''b'']\<rparr>),
         Malformed,
         JsonObject (empty_message\<lparr>m_type := Some ''summary'',
           m_metadata := Some (empty_metadata\<lparr>md_summary := Some ''S''\<rparr>)\<rparr>),
         JsonObject (empty_message\<lparr>m_type := Some ''summary'',
           m_metadata := Some (empty_metadata\<lparr>md_thread_summary := Some ''T''\<rparr>)\<rparr>)]) = ''T''
   \<and> conversationTitle
     (parseJSONLFile Map.empty ''f''
        [JsonObject (empty_message\<lparr>m_type := Some ''user'', m_text := Some [CHR ''a'', CHR 0x0A, CHR ''b'']\<rparr>)])
       = ''a b''"
  using title_resolution[of Map.empty "''f''"
        "[JsonObject (empty_message\<lparr>m_type := Some ''user'', m_text := Some [CHR ''a'', CHR 0x0A, CHR ''b'']\<rparr>),
         Malformed,
         JsonObject (empty_message\<lparr>m_type := Some ''summary'',
           m_metadata := Some (empty_metadata\<lparr>md_summary := Some ''S''\<rparr>)\<rparr>),
         JsonObject (empty_message\<lparr>m_type := Some ''summary'',
           m_metadata := Some (empty_metadata\<lparr>md_thread_summary := Some ''T''\<rparr>)\<rparr>)]"]
    title_resolution[of Map.empty "''f''"
        "[JsonObject (empty_message\<lparr>m_type := Some ''user'', m_text := Some [CHR ''a'', CHR 0x0A, CHR ''b'']\<rparr>)]"]
  by (simp add: resolve_title_def explicit_title_of_def running_summary_of_def user_text_of_def
      empty_message_def empty_metadata_def truthy_def flatten_newlines_def)

text \<open>
  The order the claim states, thread summary before summary field, fails on a single
  summary record that carries both: the summary field wins.
\<close>

theorem title_priority_counterexample:
  "conversationTitle
     (parseJSONLFile Map.empty ''f''
        [JsonObject (empty_message\<lparr>m_type := Some ''summary'',
           m_metadata := Some (empty_metadata\<lparr>md_thread_summary := Some ''T'',
                                                md_summary := Some ''S''\<rparr>)\<rparr>)]) = ''S''
   \<and> conversationTitle
     (parseJSONLFile Map.empty ''f''
        [JsonObject (empty_message\<lparr>m_type := Some ''summary'',
           m_metadata := Some (empty_metadata\<lparr>md_thread_summary := Some ''T'',
                                                md_summary := Some ''S''\<rparr>)\<rparr>)]) \<noteq> ''T''"
  by (simp add: parser_defs)

section \<open>Lines that are not JSON\<close>

text \<open>
  C3 (as amended). A line that is not valid JSON changes nothing: the state of the parser
  after it is the state before it, no message is stored, the lines after it are handled as
  if it were absent, the conversation of the file is the one of the file without the line,
  and the monitor pushes no update for it. No counter is kept.
\<close>

theorem malformed_line_skipped:
  "process_line pricing st Malformed = st
   \<and> messages (ps_conversation (process_line pricing st Malformed)) = messages (ps_conversation st)
   \<and> foldl (process_line pricing) st (xs @ Malformed # ys) = foldl (process_line pricing) st (xs @ ys)
   \<and> parseJSONLFile pricing baseName (xs @ Malformed # ys) = parseJSONLFile pricing baseName (xs @ ys)
   \<and> parse_update pricing sid now Malformed = None
   \<and> parseRecentUpdates pricing clock (xs @ Malformed # ys) sid =
       parseRecentUpdates pricing clock xs sid
         @ parse_updates_from pricing sid clock (Suc (length xs)) ys"
proof -
  have app: "parse_updates_from pricing sid clock i (as @ bs) =
     parse_updates_from pricing sid clock i as
       @ parse_updates_from pricing sid clock (i + length as) bs" for i as bs
    by (induction as arbitrary: i) (auto split: option.splits)
  show ?thesis
    by (simp add: parseJSONLFile_def parseRecentUpdates_def app)
qed

text \<open>
  No quantity read from the parser's state goes up by one on a malformed line: the state
  does not change, so it holds no parse-error counter.
\<close>

theorem no_parse_error_counter:
  "\<not> (\<exists>counter :: parser_state \<Rightarrow> nat.
         counter (process_line Map.empty initial_state Malformed) = counter initial_state + 1)"
  by simp


section \<open>Burn-rate samples\<close>




























lemma apply_update_burn:
  "s_tokenBurnRate (apply_update s u) =
     s_tokenBurnRate s @
       (if s_recentActivity s = [] then []
        else case up_tokens u of
               None \<Rightarrow> []
             | Some n \<Rightarrow>
                 if minutes_between (up_timestamp u) (up_timestamp (last (s_recentActivity s))) > 0
                    \<and> n \<noteq> 0
                 then [\<lparr>ls_timestamp = up_timestamp u,
                        ls_rate = of_nat n / minutes_between (up_timestamp u)
                                               (up_timestamp (last (s_recentActivity s))),
                        ls_tokens = n\<rparr>]
                 else [])"
  by (simp add: apply_update_def Let_def split: option.splits jsnum.splits)













section \<open>Burn-rate alerts\<close>

lemma foldl_add_rate: "foldl (\<lambda>acc r. acc + ls_rate r) a xs = a + sum_list (map ls_rate xs)"
  by (induction xs arbitrary: a) (simp_all add: add.assoc)

lemma slice_last_most_recent: "slice_last n xs = most_recent n xs"
  by (simp add: slice_last_def most_recent_def rev_take)

text \<open>
  C8. With alerts enabled and a non-empty burn-rate history, the check of a session compares
  the arithmetic mean of its five most recent samples (of all of them when there are fewer)
  with \<open>tokenBurnRateThreshold\<close>: when the mean is strictly greater, exactly one alert of type
  \<open>token_burn_rate\<close> and severity \<open>critical\<close> is among the alerts, and none otherwise.
  \<open>ConfigManager.checkAlerts\<close>, given that mean as the burn rate, does the same.
\<close>

theorem burn_rate_alert:
  assumes "al_enabled thresholds" "s_tokenBurnRate s \<noteq> []"
  shows "filter (\<lambda>a. sa_type a = ''token_burn_rate'') (checkSessionAlerts thresholds s) =
           (if recent_mean (s_tokenBurnRate s) > al_tokenBurnRateThreshold thresholds
            then [\<lparr>sa_type = ''token_burn_rate'', sa_severity = ''critical'',
                   sa_amount = recent_mean (s_tokenBurnRate s), sa_sessionId = s_sessionId s\<rparr>]
            else [])
       \<and> filter (\<lambda>a. ca_type a = ''token_burn_rate'')
             (checkAlerts thresholds
                (stats\<lparr>st_tokenBurnRate := recent_mean (s_tokenBurnRate s)\<rparr>)) =
           (if recent_mean (s_tokenBurnRate s) > al_tokenBurnRateThreshold thresholds
            then [\<lparr>ca_type = ''token_burn_rate'', ca_severity = ''critical'',
                   ca_amount = recent_mean (s_tokenBurnRate s),
                   ca_threshold = al_tokenBurnRateThreshold thresholds\<rparr>]
            else [])"
  using assms
  by (simp add: checkSessionAlerts_def checkAlerts_def recent_mean_def foldl_add_rate
      slice_last_most_recent Let_def)

theorem burn_rate_alert_witness:
  "recent_mean (s_tokenBurnRate (session_with_rates [1, 10000, 11000, 12000, 13000, 14000])) = 12000
   \<and> checkSessionAlerts default_thresholds (session_with_rates [1, 10000, 11000, 12000, 13000, 14000])
       = [\<lparr>sa_type = ''token_burn_rate'', sa_severity = ''critical'', sa_amount = 12000,
           sa_sessionId = ''s''\<rparr>]
   \<and> checkSessionAlerts default_thresholds (session_with_rates [0, 0, 0, 0, 20000]) = []"
  using burn_rate_alert[of default_thresholds "session_with_rates [1, 10000, 11000, 12000, 13000, 14000]"]
  by (simp add: checkSessionAlerts_def default_thresholds_def session_with_rates_def
      new_session_def recent_mean_def most_recent_def slice_last_def Let_def)

section \<open>The size of a live session\<close>

lemma two_line_updates:
  "parseRecentUpdates Map.empty (\<lambda>i. 0) (readLastLines two_line_file 50) ''s'' =
     [the (parse_update Map.empty ''s'' 0 (JsonObject (assistant_message 0 1000))),
      the (parse_update Map.empty ''s'' 0 (JsonObject (assistant_message 60000 1000)))]"
  by (simp add: parseRecentUpdates_def readLastLines_def slice_last_def two_line_file_def Let_def)

lemma update_0:
  "up_timestamp (the (parse_update Map.empty ''s'' 0 (JsonObject (assistant_message 0 1000)))) = 0"
  by (simp add: assistant_message_def empty_message_def empty_usage_def truthy_def Let_def)

lemma update_1:
  "up_timestamp (the (parse_update Map.empty ''s'' 0 (JsonObject (assistant_message 60000 1000)))) = 60000
   \<and> up_tokens (the (parse_update Map.empty ''s'' 0 (JsonObject (assistant_message 60000 1000)))) = Some 1000"
  by (simp add: assistant_message_def empty_message_def empty_usage_def truthy_def or0_def Let_def)

lemma apply_update_activity:
  "s_recentActivity (apply_update s u) = s_recentActivity s @ [u]"
  by (simp add: apply_update_def Let_def split: option.splits jsnum.splits)

lemma keep_recent_burn: "s_tokenBurnRate (keep_recent s) = s_tokenBurnRate s"
  by (simp add: keep_recent_def)

lemma keep_recent_length: "length (s_recentActivity (keep_recent s)) \<le> 100"
  by (simp add: keep_recent_def slice_last_def)

lemma keep_recent_last:
  "s_recentActivity s \<noteq> [] \<Longrightarrow> s_recentActivity (keep_recent s) \<noteq> []
     \<and> last (s_recentActivity (keep_recent s)) = last (s_recentActivity s)"
  by (auto simp: keep_recent_def slice_last_def)

lemma snapshot_bounds:
  "length (ss_burnRateHistory (session_snapshot s)) \<le> 20
   \<and> length (ss_recentActivity (session_snapshot s)) \<le> 10"
  by (auto simp: session_snapshot_def slice_last_def Let_def)

lemma after_two_lines_last:
  "s_recentActivity (after_two_lines s0) \<noteq> []
   \<and> up_timestamp (last (s_recentActivity (after_two_lines s0))) = 60000"
  using keep_recent_last[of "foldl apply_update s0
     [the (parse_update Map.empty ''s'' 0 (JsonObject (assistant_message 0 1000))),
      the (parse_update Map.empty ''s'' 0 (JsonObject (assistant_message 60000 1000)))]"]
  unfolding after_two_lines_def
  by (simp add: apply_update_activity update_1 del: parse_update.simps)

lemma after_two_lines_fresh:
  "length (s_tokenBurnRate (after_two_lines (new_session ''s'' 0))) = 1"
  unfolding after_two_lines_def keep_recent_burn
  by (simp add: apply_update_burn apply_update_activity update_0 update_1 new_session_def
      minutes_between_def del: parse_update.simps split: option.splits)

lemma after_two_lines_again:
  assumes "s_recentActivity s0 \<noteq> []" "up_timestamp (last (s_recentActivity s0)) = 60000"
  shows "length (s_tokenBurnRate (after_two_lines s0)) = Suc (length (s_tokenBurnRate s0))"
  unfolding after_two_lines_def keep_recent_burn
  using assms
  by (simp add: apply_update_burn apply_update_activity update_0 update_1 minutes_between_def
      del: parse_update.simps split: option.splits)

lemma notify_Suc:
  "notify (Suc k) ''s'' =
     Some (after_two_lines (case notify k ''s'' of None \<Rightarrow> new_session ''s'' 0 | Some s \<Rightarrow> s))"
  by (simp add: processFileUpdate_def two_line_updates after_two_lines_def Let_def
      del: parse_update.simps)

text \<open>
  C9. The stored burn-rate history is not bounded: after \<open>k + 1\<close> change notifications for
  the two-line file the session holds \<open>k + 1\<close> samples, since every notification reads the
  last lines again and nothing truncates \<open>tokenBurnRate\<close>. The stored recent activity stays
  within 100 entries, and the snapshot shows at most 20 samples and 10 entries.
\<close>

theorem burn_history_grows:
  "\<exists>s. notify (Suc k) ''s'' = Some s
       \<and> length (s_tokenBurnRate s) = Suc k
       \<and> length (s_recentActivity s) \<le> 100
       \<and> length (ss_burnRateHistory (session_snapshot s)) \<le> 20
       \<and> length (ss_recentActivity (session_snapshot s)) \<le> 10"
proof -
  have main: "\<exists>s. notify (Suc k) ''s'' = Some s \<and> length (s_tokenBurnRate s) = Suc k
                \<and> s_recentActivity s \<noteq> [] \<and> up_timestamp (last (s_recentActivity s)) = 60000
                \<and> length (s_recentActivity s) \<le> 100"
  proof (induction k)
    case 0
    have "notify (Suc 0) ''s'' = Some (after_two_lines (new_session ''s'' 0))"
      unfolding notify_Suc by simp
    then show ?case
      using after_two_lines_fresh after_two_lines_last[of "new_session ''s'' 0"]
        keep_recent_length
      by (simp add: after_two_lines_def)
  next
    case (Suc k)
    then obtain s where s: "notify (Suc k) ''s'' = Some s" "length (s_tokenBurnRate s) = Suc k"
      "s_recentActivity s \<noteq> []" "up_timestamp (last (s_recentActivity s)) = 60000"
      by blast
    have "notify (Suc (Suc k)) ''s'' = Some (after_two_lines s)"
      unfolding notify_Suc[of "Suc k"] s(1) by simp
    then show ?case
      using after_two_lines_again[OF s(3,4)] s(2) after_two_lines_last[of s] keep_recent_length
      by (simp add: after_two_lines_def)
  qed
  then show ?thesis using snapshot_bounds by blast
qed


section \<open>Aggregation\<close>

subsection \<open>Folding entries into a dictionary\<close>

lemma map_of_upsert:
  "map_of (upsert init add acc k d) k' =
     (if k' = k then Some (add (case map_of acc k of Some v \<Rightarrow> v | None \<Rightarrow> init k) d)
      else map_of acc k')"
  by (simp add: upsert_def update_conv')

lemma keys_upsert:
  "fst ` set (upsert init add acc k d) = insert k (fst ` set acc)"
  using update_keys[of k "add (case map_of acc k of Some v \<Rightarrow> v | None \<Rightarrow> init k) d" acc]
  by (auto simp: upsert_def simp flip: set_map)

lemma distinct_upsert:
  "distinct (map fst acc) \<Longrightarrow> distinct (map fst (upsert init add acc k d))"
  by (simp add: upsert_def distinct_update)

lemma entries_for_Cons:
  "entries_for k ((k', d) # items) = (if k' = k then d # entries_for k items else entries_for k items)"
  by (simp add: entries_for_def)

lemma map_of_fold_upsert:
  "map_of (foldl (\<lambda>a (k, d). upsert init add a k d) acc items) k =
     (case map_of acc k of
        Some v \<Rightarrow> Some (foldl add v (entries_for k items))
      | None \<Rightarrow> if entries_for k items = [] then None
                else Some (foldl add (init k) (entries_for k items)))"
proof (induction items arbitrary: acc)
  case Nil
  then show ?case by (simp add: entries_for_def split: option.splits)
next
  case (Cons kd items)
  obtain k' d where kd: "kd = (k', d)" by (cases kd)
  show ?case
    unfolding kd by (simp add: Cons.IH map_of_upsert entries_for_Cons split: option.splits)
qed

lemma keys_fold_upsert:
  "fst ` set (foldl (\<lambda>a (k, d). upsert init add a k d) acc items) =
     fst ` set acc \<union> fst ` set items"
proof (induction items arbitrary: acc)
  case Nil
  then show ?case by simp
next
  case (Cons kd items)
  obtain k' d where kd: "kd = (k', d)" by (cases kd)
  show ?case unfolding kd by (simp add: Cons.IH keys_upsert)
qed

lemma distinct_fold_upsert:
  "distinct (map fst acc) \<Longrightarrow>
     distinct (map fst (foldl (\<lambda>a (k, d). upsert init add a k d) acc items))"
proof (induction items arbitrary: acc)
  case Nil
  then show ?case by simp
next
  case (Cons kd items)
  obtain k' d where kd: "kd = (k', d)" by (cases kd)
  show ?case unfolding kd using Cons.prems by (simp add: Cons.IH distinct_upsert)
qed

subsection \<open>Hourly buckets\<close>

lemma foldl_add_hourly:
  "foldl (add_hourly tz) acc conversations =
     foldl (\<lambda>a (k, d). upsert new_hourly_bucket add_to_bucket a k d) acc (hour_items tz conversations)"
proof (induction conversations arbitrary: acc)
  case Nil
  then show ?case by (simp add: hour_items_def)
next
  case (Cons c cs)
  have step: "add_hourly tz acc c =
      (if totalCost c > 0 \<and> startTime c \<noteq> None
       then upsert new_hourly_bucket add_to_bucket acc (getHours tz (the (startTime c))) c
       else acc)"
    by (cases "startTime c") (simp_all add: add_hourly_def)
  show ?case
    by (auto simp: hour_items_def Cons.IH[unfolded hour_items_def] step)
qed

lemma foldl_add_to_bucket:
  "foldl add_to_bucket b cs =
     b\<lparr>hb_totalCost := hb_totalCost b + sum_list (map totalCost cs),
       hb_totalTokens := hb_totalTokens b + sum_list (map (\<lambda>c. ut_total (totalTokens c)) cs),
       hb_conversationCount := hb_conversationCount b + length cs\<rparr>"
  by (induction cs arbitrary: b) (simp_all add: add_to_bucket_def add.assoc)

lemma hour_items_key: "(k, c) \<in> set (hour_items tz cs) \<Longrightarrow> k < 24 \<and> totalCost c > 0"
  by (auto simp: hour_items_def getHours_def)

lemma map_of_hourly:
  "map_of (foldl (add_hourly tz) [] cs) h =
     (if entries_for h (hour_items tz cs) = [] then None else Some (hour_bucket tz cs h))"
  by (simp add: foldl_add_hourly map_of_fold_upsert foldl_add_to_bucket new_hourly_bucket_def
      hour_bucket_def Let_def)

lemma keys_hourly: "fst ` set (foldl (add_hourly tz) [] cs) \<subseteq> {0..<24}"
proof
  fix k assume "k \<in> fst ` set (foldl (add_hourly tz) [] cs)"
  then have "k \<in> fst ` set (hour_items tz cs)"
    by (simp add: foldl_add_hourly keys_fold_upsert)
  then obtain c where "(k, c) \<in> set (hour_items tz cs)" by auto
  then show "k \<in> {0..<24}" using hour_items_key by fastforce
qed

lemma distinct_hourly: "distinct (map fst (foldl (add_hourly tz) [] cs))"
  by (simp add: foldl_add_hourly distinct_fold_upsert)

lemma hour_bucket_empty:
  "entries_for h (hour_items tz cs) = [] \<Longrightarrow> hour_bucket tz cs h = new_hourly_bucket h"
  by (simp add: hour_bucket_def new_hourly_bucket_def)

lemma map_of_fill_hour:
  "map_of (fill_hour acc i) h =
     (if h = i then Some (case map_of acc i of Some b \<Rightarrow> b | None \<Rightarrow> new_hourly_bucket i)
      else map_of acc h)"
  by (simp add: fill_hour_def update_conv' split: option.splits)

lemma keys_fill_hour: "fst ` set (fill_hour acc i) = insert i (fst ` set acc)"
proof (cases "map_of acc i")
  case None
  then show ?thesis
    using update_keys[of i "new_hourly_bucket i" acc]
    by (auto simp: fill_hour_def simp flip: set_map)
next
  case (Some b)
  then have "i \<in> fst ` set acc" by (metis map_of_eq_None_iff option.distinct(1))
  then show ?thesis using Some by (auto simp: fill_hour_def)
qed

lemma distinct_fill_hour: "distinct (map fst acc) \<Longrightarrow> distinct (map fst (fill_hour acc i))"
  by (simp add: fill_hour_def distinct_update split: option.splits)

lemma fill_hours:
  "map_of (foldl fill_hour acc is) h =
     (if h \<in> set is then Some (case map_of acc h of Some b \<Rightarrow> b | None \<Rightarrow> new_hourly_bucket h)
      else map_of acc h)
   \<and> fst ` set (foldl fill_hour acc is) = fst ` set acc \<union> set is
   \<and> (distinct (map fst acc) \<longrightarrow> distinct (map fst (foldl fill_hour acc is)))"
proof (induction "is" arbitrary: acc)
  case Nil
  then show ?case by simp
next
  case (Cons i "is")
  show ?case
    using Cons.IH[of "fill_hour acc i"]
    by (auto simp: map_of_fill_hour keys_fill_hour distinct_fill_hour split: option.splits)
qed

lemma hour_bucket_hour: "hb_hour (hour_bucket tz cs h) = h"
  by (simp add: hour_bucket_def Let_def)

lemma filled_table:
  fixes tz cs
  defines "F \<equiv> foldl fill_hour (foldl (add_hourly tz) [] cs) [0..<24]"
  shows "map_of F h = (if h < 24 then Some (hour_bucket tz cs h) else None)"
    and "distinct (map fst F)"
    and "fst ` set F = {0..<24}"
proof -
  let ?H = "foldl (add_hourly tz) [] cs"
  have keysH: "fst ` set ?H \<subseteq> {0..<24}" by (rule keys_hourly)
  show "fst ` set F = {0..<24}"
    unfolding F_def using fill_hours[of ?H "[0..<24]" h] keysH by auto
  show "distinct (map fst F)"
    unfolding F_def using fill_hours[of ?H "[0..<24]" h] distinct_hourly[of tz cs] by blast
  show "map_of F h = (if h < 24 then Some (hour_bucket tz cs h) else None)"
  proof (cases "h < 24")
    case True
    then have "map_of F h = Some (case map_of ?H h of Some b \<Rightarrow> b | None \<Rightarrow> new_hourly_bucket h)"
      unfolding F_def using fill_hours[of ?H "[0..<24]" h] by simp
    then show ?thesis
      using True by (simp add: map_of_hourly hour_bucket_empty)
  next
    case False
    then have "h \<notin> fst ` set ?H" using keysH by auto
    then have "map_of ?H h = None" by (simp add: map_of_eq_None_iff)
    then show ?thesis
      unfolding F_def using fill_hours[of ?H "[0..<24]" h] False by simp
  qed
qed

lemma filled_table_set:
  "set (foldl fill_hour (foldl (add_hourly tz) [] cs) [0..<24]) =
     (\<lambda>h. (h, hour_bucket tz cs h)) ` {0..<24}"
proof -
  let ?F = "foldl fill_hour (foldl (add_hourly tz) [] cs) [0..<24]"
  have iff: "(k, b) \<in> set ?F \<longleftrightarrow> k < 24 \<and> b = hour_bucket tz cs k" for k b
  proof -
    have "(k, b) \<in> set ?F \<longleftrightarrow> map_of ?F k = Some b"
      using map_of_eq_Some_iff[OF filled_table(2)[of tz cs], of k b] by simp
    also have "\<dots> \<longleftrightarrow> k < 24 \<and> b = hour_bucket tz cs k"
      unfolding filled_table(1)[of tz cs k] by auto
    finally show ?thesis .
  qed
  show ?thesis
  proof (rule set_eqI)
    fix p :: "nat \<times> hourly_bucket"
    obtain k b where p: "p = (k, b)" by (cases p)
    show "p \<in> set ?F \<longleftrightarrow> p \<in> (\<lambda>h. (h, hour_bucket tz cs h)) ` {0..<24}"
      unfolding p iff by auto
  qed
qed

lemma aggregateHourlyCosts_closed_form:
  "aggregateHourlyCosts tz cs = map (hour_bucket tz cs) [0..<24]"
proof -
  let ?F = "foldl fill_hour (foldl (add_hourly tz) [] cs) [0..<24]"
  let ?xs = "sort_key hb_hour (map snd ?F)"
  let ?ys = "map (hour_bucket tz cs) [0..<24]"
  have "hb_hour (snd p) = fst p" if "p \<in> set ?F" for p
  proof -
    from that obtain h where "p = (h, hour_bucket tz cs h)"
      unfolding filled_table_set by blast
    then show ?thesis by (simp add: hour_bucket_hour)
  qed
  then have hours: "map hb_hour (map snd ?F) = map fst ?F" by simp
  have "set ?xs = snd ` set ?F" by simp
  also have "\<dots> = hour_bucket tz cs ` {0..<24}"
    unfolding filled_table_set by (simp add: image_image)
  finally have set_eq: "set ?xs = set ?ys" by simp
  have ys_hours: "map hb_hour ?ys = [0..<24]"
    by (simp add: hour_bucket_hour comp_def map_idI)
  have sy: "sorted (map hb_hour ?ys)" unfolding ys_hours by simp
  have dy: "distinct (map hb_hour ?ys)" unfolding ys_hours by simp
  have sx: "sorted (map hb_hour ?xs)" by (rule sorted_sort_key)
  have "mset (map hb_hour ?xs) = mset (map hb_hour (map snd ?F))"
    by (simp only: mset_map mset_sort)
  then have "mset (map hb_hour ?xs) = mset (map fst ?F)"
    unfolding hours .
  then have "distinct (map hb_hour ?xs) \<longleftrightarrow> distinct (map fst ?F)"
    by (rule mset_eq_imp_distinct_iff)
  then have dx: "distinct (map hb_hour ?xs)"
    using filled_table(2)[of tz cs] by simp
  have inj: "inj_on hb_hour (set ?xs \<union> set ?ys)"
    unfolding set_eq by (rule inj_onI) (auto simp: hour_bucket_hour)
  have "?xs = ?ys"
    by (rule map_sorted_distinct_set_unique[OF inj sx dx sy dy set_eq])
  then show ?thesis by (simp only: aggregateHourlyCosts_def)
qed

lemma hour_bucket_nonneg: "0 \<le> hb_totalCost (hour_bucket tz cs h)"
proof -
  have "0 < x" if "x \<in> set (map totalCost (entries_for h (hour_items tz cs)))" for x
  proof -
    from that obtain c where "c \<in> set (entries_for h (hour_items tz cs))" "x = totalCost c"
      by auto
    then show ?thesis
      using hour_items_key[of h c tz cs] by (auto simp: entries_for_def)
  qed
  then have "0 \<le> sum_list (map totalCost (entries_for h (hour_items tz cs)))"
    by (rule jsnum_sum_nonneg)
  then show ?thesis
    by (simp add: hour_bucket_def Let_def)
qed

text \<open>
  C6. For every list of conversations, the empty one included, \<open>aggregateHourlyCosts\<close>
  returns exactly 24 buckets, for the hours 0 to 23 in ascending order; the total cost of
  every bucket is non-negative, and the bucket of an hour in which no conversation with a
  positive cost started is the zero bucket of that hour.
\<close>

theorem hourly_buckets:
  "length (aggregateHourlyCosts tz conversations) = 24
   \<and> map hb_hour (aggregateHourlyCosts tz conversations) = [0..<24]
   \<and> (\<forall>b \<in> set (aggregateHourlyCosts tz conversations). 0 \<le> hb_totalCost b)
   \<and> aggregateHourlyCosts tz [] = map new_hourly_bucket [0..<24]
   \<and> (\<forall>h < 24. (\<forall>c \<in> set conversations.
          totalCost c > 0 \<longrightarrow> (\<forall>t. startTime c = Some t \<longrightarrow> getHours tz t \<noteq> h))
        \<longrightarrow> aggregateHourlyCosts tz conversations ! h = new_hourly_bucket h)"
proof -
  have hours: "map hb_hour (aggregateHourlyCosts tz conversations) = [0..<24]"
    by (simp add: aggregateHourlyCosts_closed_form hour_bucket_hour comp_def map_idI)
  have nonneg: "\<forall>b \<in> set (aggregateHourlyCosts tz conversations). 0 \<le> hb_totalCost b"
    by (auto simp: aggregateHourlyCosts_closed_form hour_bucket_nonneg)
  have empty: "aggregateHourlyCosts tz [] = map new_hourly_bucket [0..<24]"
    unfolding aggregateHourlyCosts_closed_form
    by (rule map_cong) (simp_all add: hour_bucket_empty hour_items_def entries_for_def)
  have zero: "aggregateHourlyCosts tz conversations ! h = new_hourly_bucket h"
    if "h < 24" and none: "\<forall>c \<in> set conversations.
          totalCost c > 0 \<longrightarrow> (\<forall>t. startTime c = Some t \<longrightarrow> getHours tz t \<noteq> h)" for h
  proof -
    have "entries_for h (hour_items tz conversations) = []"
      using none by (auto simp: entries_for_def hour_items_def filter_empty_conv)
    then show ?thesis
      using that(1) by (simp add: aggregateHourlyCosts_closed_form hour_bucket_empty)
  qed
  from hours have "length (aggregateHourlyCosts tz conversations) = 24"
    by (metis length_map length_upt diff_zero)
  with hours nonneg empty zero show ?thesis by blast
qed

theorem hourly_buckets_witness:
  "map hb_hour (aggregateHourlyCosts (\<lambda>t. 0) [conversation_at 10800000 (Num 5), conversation_at 0 0])
     = [0..<24]
   \<and> hb_totalCost (aggregateHourlyCosts (\<lambda>t. 0)
        [conversation_at 10800000 (Num 5), conversation_at 0 0] ! 3) = Num 5
   \<and> aggregateHourlyCosts (\<lambda>t. 0) [conversation_at 10800000 (Num 5), conversation_at 0 0] ! 0
       = new_hourly_bucket 0"
proof -
  have three: "hb_totalCost (aggregateHourlyCosts (\<lambda>t. 0)
      [conversation_at 10800000 (Num 5), conversation_at 0 0] ! 3) = Num 5"
    by (simp add: aggregateHourlyCosts_closed_form hour_bucket_def hour_items_def entries_for_def
        conversation_at_def initial_conversation_def getHours_def Let_def)
  have none: "\<forall>c \<in> set [conversation_at 10800000 (Num 5), conversation_at 0 0].
          totalCost c > 0 \<longrightarrow> (\<forall>t. startTime c = Some t \<longrightarrow> getHours (\<lambda>t. 0) t \<noteq> 0)"
    by (simp add: conversation_at_def initial_conversation_def getHours_def)
  show ?thesis
    using hourly_buckets[of "\<lambda>t. 0" "[conversation_at 10800000 (Num 5), conversation_at 0 0]"] three none
    by simp
qed


section \<open>The configuration merge and the forbidden keys\<close>

lemma merge_keys_step:
  assumes "key \<notin> set forbidden" "merge_keys target acc ((key, sv) # ps) = Inr out"
  shows "\<exists>x. merge_keys target (AList.update key x acc) ps = Inr out
            \<and> (\<forall>sps tv. sv = JObj sps \<longrightarrow> map_of (spread target) key = Some tv \<longrightarrow>
                   is_object_like tv \<longrightarrow> safeMerge tv sv = Inr x)"
proof (cases sv)
  case (JObj sps)
  show ?thesis
  proof (cases "is_object_like target")
    case False
    then show ?thesis using assms by (simp add: JObj)
  next
    case True
    show ?thesis
    proof (cases "map_of (spread target) key")
      case None
      then show ?thesis using assms True by (auto simp: JObj)
    next
      case (Some tv)
      show ?thesis
      proof (cases "is_object_like tv")
        case False
        then show ?thesis using assms True Some by (auto simp: JObj)
      next
        case tvo: True
        show ?thesis
        proof (cases "safeMerge tv (JObj sps)")
          case (Inl e)
          then show ?thesis using assms True Some tvo by (simp add: JObj)
        next
          case (Inr m)
          then show ?thesis using assms True Some tvo by (auto simp: JObj)
        qed
      qed
    qed
  qed
qed (use assms in auto)

lemma merge_keys_untouched:
  "merge_keys target acc ps = Inr out \<Longrightarrow> k \<in> set forbidden \<or> k \<notin> fst ` set ps \<Longrightarrow>
     map_of out k = map_of acc k"
proof (induction ps arbitrary: acc)
  case Nil
  then show ?case by simp
next
  case (Cons p ps)
  obtain key sv where p: "p = (key, sv)" by (cases p)
  have k': "k \<in> set forbidden \<or> k \<notin> fst ` set ps" using Cons.prems(2) by auto
  show ?case
  proof (cases "key \<in> set forbidden")
    case True
    then have "merge_keys target acc ps = Inr out" using Cons.prems(1) by (simp add: p)
    then show ?thesis using k' by (rule Cons.IH)
  next
    case False
    then have kk: "k \<noteq> key" using Cons.prems(2) by (auto simp: p)
    from merge_keys_step[OF False Cons.prems(1)[unfolded p]]
    obtain x where "merge_keys target (AList.update key x acc) ps = Inr out" by blast
    then have "map_of out k = map_of (AList.update key x acc) k" using k' by (rule Cons.IH)
    then show ?thesis using kk by (simp add: update_conv')
  qed
qed

lemma merge_keys_merged:
  "merge_keys target acc ps = Inr out \<Longrightarrow> distinct (map fst ps) \<Longrightarrow>
   (key, JObj sps) \<in> set ps \<Longrightarrow> key \<notin> set forbidden \<Longrightarrow>
   map_of (spread target) key = Some tv \<Longrightarrow> is_object_like tv \<Longrightarrow>
     \<exists>m. safeMerge tv (JObj sps) = Inr m \<and> map_of out key = Some m"
proof (induction ps arbitrary: acc)
  case Nil
  then show ?case by simp
next
  case (Cons p ps)
  obtain key' sv' where p: "p = (key', sv')" by (cases p)
  have d: "distinct (map fst ps)" and notin': "key' \<notin> fst ` set ps"
    using Cons.prems(2) by (simp_all add: p)
  show ?case
  proof (cases "key' = key")
    case True
    have "(key, JObj sps) \<notin> set ps" using notin' True by force
    then have sv': "sv' = JObj sps" using Cons.prems(3) True by (simp add: p)
    from merge_keys_step[OF Cons.prems(4) Cons.prems(1)[unfolded p True]]
    obtain m where rest: "merge_keys target (AList.update key m acc) ps = Inr out"
      and m: "safeMerge tv sv' = Inr m"
      using sv' Cons.prems(5,6) by blast
    have "map_of out key = map_of (AList.update key m acc) key"
      using merge_keys_untouched[OF rest] notin' True by blast
    then show ?thesis using m sv' by (simp add: update_conv')
  next
    case False
    then have mem: "(key, JObj sps) \<in> set ps" using Cons.prems(3) by (auto simp: p)
    have "\<exists>acc'. merge_keys target acc' ps = Inr out"
    proof (cases "key' \<in> set forbidden")
      case True
      then show ?thesis using Cons.prems(1) by (auto simp: p)
    next
      case nf: False
      from merge_keys_step[OF nf Cons.prems(1)[unfolded p]] show ?thesis by blast
    qed
    then obtain acc' where "merge_keys target acc' ps = Inr out" by blast
    then show ?thesis using d mem Cons.prems(4,5,6) by (rule Cons.IH)
  qed
qed

lemma safeMerge_not_object:
  "(\<forall>ps. source \<noteq> JObj ps) \<Longrightarrow> safeMerge target source = Inr (JObj (spread target))"
  by (cases source) simp_all

lemma safeMerge_result:
  "safeMerge target source = Inr r \<Longrightarrow> \<exists>out. r = JObj out"
  by (cases source) (auto split: sum.splits)

lemma safeMerge_JObj:
  "safeMerge target (JObj ps) = Inr (JObj out) \<Longrightarrow> merge_keys target (spread target) ps = Inr out"
  by (cases "merge_keys target (spread target) ps") simp_all

lemma safeMerge_forbidden:
  assumes "safeMerge target source = Inr (JObj out)" "k \<in> set forbidden"
  shows "map_of out k = map_of (spread target) k"
proof (cases source)
  case (JObj ps)
  with assms(1) have "merge_keys target (spread target) ps = Inr out"
    using safeMerge_JObj by blast
  then show ?thesis using merge_keys_untouched assms(2) by blast
qed (use assms in simp_all)

text \<open>
  C10 (as amended). \<open>safeMerge\<close> returns the target's shallow copy when the source is not a
  non-array object. In the object it returns, the keys \<open>__proto__\<close>, \<open>constructor\<close> and
  \<open>prototype\<close> hold what the target's copy holds: no value of the source is assigned under
  them. The same holds in every nested object it builds by merging, that is under a key
  where the target holds an object and the source a non-array object. \<open>deepMerge\<close> is
  \<open>safeMerge\<close>.
\<close>

theorem safeMerge_forbidden_keys:
  "((\<forall>ps. source \<noteq> JObj ps) \<longrightarrow> safeMerge target source = Inr (JObj (spread target)))
   \<and> (\<forall>out. safeMerge target source = Inr (JObj out) \<longrightarrow>
         (\<forall>k \<in> set forbidden. map_of out k = map_of (spread target) k))
   \<and> (\<forall>ps out key sps tv. source = JObj ps \<and> safeMerge target source = Inr (JObj out)
         \<and> distinct (map fst ps) \<and> (key, JObj sps) \<in> set ps \<and> key \<notin> set forbidden
         \<and> map_of (spread target) key = Some tv \<and> is_object_like tv \<longrightarrow>
         (\<exists>nested. safeMerge tv (JObj sps) = Inr (JObj nested)
                   \<and> map_of out key = Some (JObj nested)
                   \<and> (\<forall>k \<in> set forbidden. map_of nested k = map_of (spread tv) k)))
   \<and> deepMerge target source = safeMerge target source"
proof -
  have nested: "\<exists>nested. safeMerge tv (JObj sps) = Inr (JObj nested)
                   \<and> map_of out key = Some (JObj nested)
                   \<and> (\<forall>k \<in> set forbidden. map_of nested k = map_of (spread tv) k)"
    if "source = JObj ps" "safeMerge target source = Inr (JObj out)"
       "distinct (map fst ps)" "(key, JObj sps) \<in> set ps" "key \<notin> set forbidden"
       "map_of (spread target) key = Some tv" "is_object_like tv" for ps out key sps tv
  proof -
    from that(1,2) have "merge_keys target (spread target) ps = Inr out"
      using safeMerge_JObj by blast
    from merge_keys_merged[OF this that(3,4,5,6,7)] obtain m where
      m: "safeMerge tv (JObj sps) = Inr m" "map_of out key = Some m" by blast
    from safeMerge_result[OF m(1)] obtain nested where n: "m = JObj nested" by blast
    show ?thesis
      using m safeMerge_forbidden[of tv "JObj sps" nested] unfolding n by blast
  qed
  have a: "(\<forall>ps. source \<noteq> JObj ps) \<longrightarrow> safeMerge target source = Inr (JObj (spread target))"
    using safeMerge_not_object by blast
  have b: "\<forall>out. safeMerge target source = Inr (JObj out) \<longrightarrow>
         (\<forall>k \<in> set forbidden. map_of out k = map_of (spread target) k)"
    using safeMerge_forbidden by blast
  have c: "\<forall>ps out key sps tv. source = JObj ps \<and> safeMerge target source = Inr (JObj out)
         \<and> distinct (map fst ps) \<and> (key, JObj sps) \<in> set ps \<and> key \<notin> set forbidden
         \<and> map_of (spread target) key = Some tv \<and> is_object_like tv \<longrightarrow>
         (\<exists>nested. safeMerge tv (JObj sps) = Inr (JObj nested)
                   \<and> map_of out key = Some (JObj nested)
                   \<and> (\<forall>k \<in> set forbidden. map_of nested k = map_of (spread tv) k))"
    using nested by blast
  have d: "deepMerge target source = safeMerge target source" by (simp only: deepMerge_def)
  from a b c d show ?thesis by blast
qed

lemmas merge_defs = deepMerge_def config_defaults_def hostile_config_def spread_def forbidden_def
  is_object_like_def

lemma merged_hostile:
  "deepMerge config_defaults hostile_config = Inr (JObj
     [(''alerts'', JObj [(''enabled'', JBool False), (''dailyCostThreshold'', JNum 10),
              (''sessionCostThreshold'', JNum 2), (''tokenBurnRateThreshold'', JNum 10000),
              (''soundEnabled'', JBool False)]),
           (''display'', JObj [(''currency'', JStr ''USD''), (''currencySymbol'', JStr ''$''),
              (''dateFormat'', JStr ''MM/DD/YYYY''), (''timeFormat'', JStr ''12h''),
              (''theme'', JStr ''light''), (''chartAnimations'', JBool True)]),
           (''export'', JObj [(''defaultFormat'', JStr ''html''), (''includeRawData'', JBool False),
              (''compressOutput'', JBool False)]),
           (''monitoring'', JObj [(''autoRefresh'', JBool False), (''refreshInterval'', JNum 300),
              (''showNotifications'', JBool True)]),
           (''filters'', JObj [(''defaultDateRange'', JNum 30),
              (''excludeZeroCostConversations'', JBool True), (''minConversationDuration'', JNum 0)]),
           (''pricing'', JObj [(''customPricing'',
              JObj [(''m'', JObj [(''constructor'', JNum 1),
                                  (''__proto__'', JObj [(''polluted'', JBool True)])])]),
              (''useCachedPricing'', JBool True)])])"
  by (simp add: merge_defs)

text \<open>
  The claim as stated fails below the merged levels: an object of the source stored under a
  key where the target has no object is stored as it is, with its \<open>constructor\<close> and
  \<open>__proto__\<close> keys. The defaults merged with the hostile configuration carry both inside
  the new pricing entry.
\<close>

theorem safeMerge_nested_counterexample:
  "(case deepMerge config_defaults hostile_config of
      Inl e \<Rightarrow> None
    | Inr merged \<Rightarrow> json_at merged [''pricing'', ''customPricing'', ''m'', ''constructor''])
     = Some (JNum 1)
   \<and> (case deepMerge config_defaults hostile_config of
      Inl e \<Rightarrow> None
    | Inr merged \<Rightarrow> json_at merged [''pricing'', ''customPricing'', ''m'', ''__proto__'', ''polluted''])
     = Some (JBool True)"
  unfolding merged_hostile by (simp add: spread_def)

theorem safeMerge_forbidden_keys_witness:
  "(case deepMerge config_defaults hostile_config of
      Inl e \<Rightarrow> None
    | Inr merged \<Rightarrow> json_at merged [''__proto__'']) = None
   \<and> (case deepMerge config_defaults hostile_config of
      Inl e \<Rightarrow> None
    | Inr merged \<Rightarrow> json_at merged [''alerts'', ''constructor'']) = None
   \<and> (case deepMerge config_defaults hostile_config of
      Inl e \<Rightarrow> None
    | Inr merged \<Rightarrow> json_at merged [''alerts'', ''enabled'']) = Some (JBool False)
   \<and> deepMerge config_defaults (JArr [hostile_config]) = Inr config_defaults"
  using safeMerge_forbidden_keys[of hostile_config config_defaults]
  unfolding merged_hostile by (simp add: merge_defs)


section \<open>Aggregation and the order of the conversations\<close>







subsection \<open>The sort by a descending number\<close>






subsection \<open>Overall totals\<close>





subsection \<open>Dictionaries that inherit\<close>









subsection \<open>Tools\<close>







subsection \<open>Models\<close>












subsection \<open>Projects\<close>




















end
